theory Spec2Isabelle
  imports Complex_Main
begin

section \<open>JavaScript values\<close>

text \<open>
  What a \<open>catch\<close> block can receive. A rejection may carry any value: \<open>null\<close>,
  \<open>undefined\<close>, or a value whose properties can be read. Of the latter the handlers
  read \<open>message\<close> and \<open>status\<close> (the HTTP status of an error raised by the OpenAI
  SDK); a property the value does not have reads as \<open>undefined\<close>, here \<open>None\<close>.
  \<open>new Error(msg)\<close> has the message and no status.
\<close>

record js_error =
  status :: "nat option"
  message :: "string option"

datatype thrown = Thrown_null | Thrown_undefined | Thrown js_error

definition Error :: "string \<Rightarrow> thrown" where
  "Error msg = Thrown \<lparr>status = None, message = Some msg\<rparr>"

definition nullish :: "thrown \<Rightarrow> bool" where
  "nullish v = (case v of Thrown _ \<Rightarrow> False | _ \<Rightarrow> True)"

text \<open>
  Reading a property of \<open>null\<close> or \<open>undefined\<close> throws a \<open>TypeError\<close>; its message is
  the one Node's engine gives.
\<close>

definition TypeError_reading :: "thrown \<Rightarrow> string \<Rightarrow> thrown" where
  "TypeError_reading v prop =
     Error (''Cannot read properties of '' @
            (case v of Thrown_null \<Rightarrow> ''null'' | _ \<Rightarrow> ''undefined'') @
            '' (reading '' @ [CHR 0x27] @ prop @ [CHR 0x27] @ '')'')"

text \<open>
  A JavaScript number: \<open>NaN\<close>, the two infinities, or a finite value. Finite doubles
  are read as the reals they denote; comparison, \<open>Math.min\<close> and \<open>Math.max\<close> are
  exact on them. Both zeros are \<open>Fin 0\<close>.
\<close>

datatype jsnum = NaN | NInf | Fin real | PInf

text \<open>A value found in a JSON request body; an absent field reads as \<open>Undefined\<close>.\<close>

datatype jsval = Undefined | Null | Bool bool | Num jsnum | Str string | Obj

fun js_le :: "jsnum \<Rightarrow> jsnum \<Rightarrow> bool" where
  "js_le NaN _ = False"
| "js_le _ NaN = False"
| "js_le NInf _ = True"
| "js_le _ PInf = True"
| "js_le (Fin a) (Fin b) = (a \<le> b)"
| "js_le _ _ = False"

definition Math_max :: "jsnum \<Rightarrow> jsnum \<Rightarrow> jsnum" where
  "Math_max a b = (if a = NaN \<or> b = NaN then NaN else if js_le a b then b else a)"

definition Math_min :: "jsnum \<Rightarrow> jsnum \<Rightarrow> jsnum" where
  "Math_min a b = (if a = NaN \<or> b = NaN then NaN else if js_le a b then a else b)"

text \<open>\<open>a || b\<close> on numbers: \<open>NaN\<close> and zero are falsy.\<close>

definition js_or :: "jsnum \<Rightarrow> jsnum \<Rightarrow> jsnum" where
  "js_or a b = (if a = NaN \<or> a = Fin 0 then b else a)"

text \<open>
  \<open>parseInt\<close> and \<open>parseFloat\<close> are built-ins of the language. On an integral number
  below \<open>10^21\<close> in magnitude \<open>parseInt\<close> is the identity (the number prints in plain
  decimal digits); \<open>parseFloat\<close> is the identity on every number. What they return on
  any other value is left to the parameter \<open>builtin\<close>.
\<close>

definition parseInt :: "(jsval \<Rightarrow> jsnum) \<Rightarrow> jsval \<Rightarrow> jsnum" where
  "parseInt builtin v =
     (case v of
        Num (Fin r) \<Rightarrow>
          if r = of_int \<lfloor>r\<rfloor> \<and> \<bar>r\<bar> < 10 ^ 21 then Fin r else builtin v
      | _ \<Rightarrow> builtin v)"

definition parseFloat :: "(jsval \<Rightarrow> jsnum) \<Rightarrow> jsval \<Rightarrow> jsnum" where
  "parseFloat builtin v = (case v of Num x \<Rightarrow> x | _ \<Rightarrow> builtin v)"

subsection \<open>Strings\<close>

text \<open>
  Strings are lists of characters in the ASCII range. \<open>trim\<close> removes the ASCII white
  space at both ends, \<open>toLowerCase\<close> maps \<open>A\<close>..\<open>Z\<close>, \<open>split_on\<close> is
  \<open>String.prototype.split\<close> with a one-character separator and \<open>join\<close> is
  \<open>Array.prototype.join\<close>.
\<close>

definition is_space :: "char \<Rightarrow> bool" where
  "is_space c = (c \<in> set [CHR '' '', CHR 0x09, CHR 0x0A, CHR 0x0B, CHR 0x0C, CHR 0x0D])"

definition trim :: "string \<Rightarrow> string" where
  "trim s = rev (dropWhile is_space (rev (dropWhile is_space s)))"

definition toLowerCase :: "string \<Rightarrow> string" where
  "toLowerCase s =
     map (\<lambda>c. case map_of (zip ''ABCDEFGHIJKLMNOPQRSTUVWXYZ'' ''abcdefghijklmnopqrstuvwxyz'') c of
                 Some l \<Rightarrow> l
               | None \<Rightarrow> c) s"

fun split_on :: "char \<Rightarrow> string \<Rightarrow> string list" where
  "split_on sep [] = [[]]"
| "split_on sep (c # cs) =
     (if c = sep then [] # split_on sep cs
      else (case split_on sep cs of
              [] \<Rightarrow> [[c]]
            | w # ws \<Rightarrow> (c # w) # ws))"

fun join :: "string \<Rightarrow> string list \<Rightarrow> string" where
  "join sep [] = []"
| "join sep [x] = x"
| "join sep (x # y # ys) = x @ sep @ join sep (y # ys)"

text \<open>\<open>a || b\<close> on an optional string: \<open>undefined\<close> and the empty string are falsy.\<close>

definition str_or :: "string option \<Rightarrow> string \<Rightarrow> string" where
  "str_or a b = (case a of None \<Rightarrow> b | Some s \<Rightarrow> if s = [] then b else s)"

text \<open>
  \<open>[...new Set(xs)]\<close>: a \<open>Set\<close> keeps its elements in insertion order and ignores a
  value it already holds.
\<close>

definition Set_add :: "'a list \<Rightarrow> 'a \<Rightarrow> 'a list" where
  "Set_add s x = (if x \<in> set s then s else s @ [x])"

definition new_Set :: "'a list \<Rightarrow> 'a list" where
  "new_Set xs = foldl Set_add [] xs"

definition push :: "'a list \<Rightarrow> 'a \<Rightarrow> 'a list" where
  "push xs x = xs @ [x]"

section \<open>Data of the services\<close>

text \<open>
  A multer file object: the fields the services read. The field \<open>size\<close> of the
  source is \<open>size_bytes\<close> here.
\<close>

record uploaded_file =
  path :: string
  originalname :: string
  mimetype :: string
  size_bytes :: nat

text \<open>What \<open>openaiService.processImage\<close> returns.\<close>

record processed_data =
  description :: string
  embedding :: "real list"
  filename :: string
  timestamp :: string

text \<open>
  What \<open>processUploadedImage\<close> returns; the fields \<open>filename\<close>, \<open>description\<close> and
  \<open>timestamp\<close> of the source carry the prefix \<open>res_\<close>.
\<close>

record upload_result =
  success :: bool
  pointId :: string
  res_filename :: string
  res_description :: string
  res_timestamp :: string

text \<open>An entry of the batch's \<open>errors\<close> array: \<open>{filename, error}\<close>, the error being what
  \<open>error.message\<close> read.\<close>

record failure =
  fail_filename :: string
  fail_error :: "string option"

record batch_result =
  successful :: "upload_result list"
  failed :: "failure list"
  totalProcessed :: nat
  totalFailed :: nat

text \<open>A ranked match returned by the vector store.\<close>

record search_hit =
  hit_id :: string
  hit_filename :: string
  hit_description :: string
  hit_timestamp :: string
  score :: real

text \<open>What \<open>searchImages\<close> of \<open>embedding.service.js\<close> returns; the fields \<open>query\<close>
  and \<open>results\<close> of the source carry the prefix \<open>sr_\<close>.\<close>

record search_result =
  sr_query :: string
  sr_results :: "search_hit list"
  totalFound :: nat
  searchParams :: "nat \<times> real"

text \<open>A point of the vector store's collection.\<close>

record stored_point =
  point_id :: string
  point_vector :: "real list"
  point_filename :: string
  point_description :: string
  point_timestamp :: string

section \<open>Effects\<close>

text \<open>
  The observable steps of a run, in the order they happen: the entry into
  \<open>processUploadedImage\<close> and \<open>cleanupTemporaryFile\<close>, every request to a
  collaborator (file system, OpenAI, vector store, the backend as seen by the client),
  and the \<open>console.error\<close> of a failed cleanup. Other console output is left out.
\<close>

datatype event =
    Call_processUploadedImage string string
  | Call_cleanupTemporaryFile string
  | InitializeCollection
  | ReadFile string
  | VisionRequest string
  | EmbeddingRequest string
  | StoreRequest string
  | SearchRequest
  | PathExists string
  | Unlink string
  | LogCleanupError string
  | HttpPostQuery string

text \<open>
  The mutable state: the service's \<open>isInitialized\<close> flag, the paths that exist in the
  upload directory, a clock that advances with every request to a collaborator, and the
  trace of events so far.
\<close>

record world =
  isInitialized :: bool
  files :: "string set"
  clock :: nat
  trace :: "event list"

text \<open>
  The collaborators, as parameters. Each answer may depend on the time of the request.
  \<open>chat_completions_create\<close> answers with \<open>response.choices[0].message.content\<close> for the
  image at a path, \<open>embeddings_create\<close> with \<open>response.data[0].embedding\<close>; a response
  on which that access throws is an error without status. \<open>initializeCollection\<close> and
  \<open>storeImageEmbedding\<close> are the vector-store client of \<open>db/qdrant.js\<close>;
  \<open>store_points\<close>, \<open>store_search_error\<close> and \<open>similarity\<close> describe the collection
  that a search reads. \<open>now\<close> is \<open>new Date().toISOString()\<close> and \<open>basename\<close> is
  \<open>path.basename\<close>.
\<close>

record env =
  process_env :: "string \<Rightarrow> string option"
  initializeCollection :: "nat \<Rightarrow> thrown option"
  readFileSync :: "nat \<Rightarrow> string \<Rightarrow> thrown option"
  chat_completions_create :: "nat \<Rightarrow> string \<Rightarrow> thrown + string"
  embeddings_create :: "nat \<Rightarrow> string \<Rightarrow> thrown + real list"
  storeImageEmbedding :: "nat \<Rightarrow> processed_data \<Rightarrow> thrown + string"
  store_points :: "nat \<Rightarrow> stored_point list"
  store_search_error :: "nat \<Rightarrow> thrown option"
  similarity :: "real list \<Rightarrow> real list \<Rightarrow> real"
  unlink :: "nat \<Rightarrow> string \<Rightarrow> thrown option"
  now :: "nat \<Rightarrow> string"
  basename :: "string \<Rightarrow> string"

text \<open>
  A computation that reads and changes the world and either throws (\<open>Inl\<close>) or returns
  (\<open>Inr\<close>). \<open>try_catch\<close> is \<open>try { ... } catch (error) { ... }\<close>; \<open>get_status\<close>
  and \<open>get_message\<close> are the reads \<open>error.status\<close> and \<open>error.message\<close>, which throw
  on \<open>null\<close> and \<open>undefined\<close>.
\<close>

type_synonym 'a io = "world \<Rightarrow> world \<times> (thrown + 'a)"

definition ret :: "'a \<Rightarrow> 'a io" where
  "ret x = (\<lambda>w. (w, Inr x))"

definition throw :: "thrown \<Rightarrow> 'a io" where
  "throw e = (\<lambda>w. (w, Inl e))"

definition bindE :: "'a io \<Rightarrow> ('a \<Rightarrow> 'b io) \<Rightarrow> 'b io" where
  "bindE m f = (\<lambda>w. case m w of (w', Inl e) \<Rightarrow> (w', Inl e) | (w', Inr x) \<Rightarrow> f x w')"

definition try_catch :: "'a io \<Rightarrow> (thrown \<Rightarrow> 'a io) \<Rightarrow> 'a io" where
  "try_catch m h = (\<lambda>w. case m w of (w', Inl e) \<Rightarrow> h e w' | (w', Inr x) \<Rightarrow> (w', Inr x))"

definition get_status :: "thrown \<Rightarrow> nat option io" where
  "get_status error =
     (case error of
        Thrown e \<Rightarrow> ret (status e)
      | _ \<Rightarrow> throw (TypeError_reading error ''status''))"

definition get_message :: "thrown \<Rightarrow> string option io" where
  "get_message error =
     (case error of
        Thrown e \<Rightarrow> ret (message e)
      | _ \<Rightarrow> throw (TypeError_reading error ''message''))"

definition emit :: "event \<Rightarrow> unit io" where
  "emit ev = (\<lambda>w. (w\<lparr>trace := trace w @ [ev]\<rparr>, Inr ()))"

definition void :: "thrown option \<Rightarrow> thrown + unit" where
  "void r = (case r of None \<Rightarrow> Inr () | Some e \<Rightarrow> Inl e)"

text \<open>A request to a collaborator: it is recorded, the clock advances, the answer is the
  collaborator's at the time of the request.\<close>

definition external :: "event \<Rightarrow> (nat \<Rightarrow> thrown + 'a) \<Rightarrow> 'a io" where
  "external ev answer =
     (\<lambda>w. (w\<lparr>trace := trace w @ [ev], clock := Suc (clock w)\<rparr>, answer (clock w)))"

definition get_isInitialized :: "bool io" where
  "get_isInitialized = (\<lambda>w. (w, Inr (isInitialized w)))"

definition set_isInitialized :: "bool \<Rightarrow> unit io" where
  "set_isInitialized b = (\<lambda>w. (w\<lparr>isInitialized := b\<rparr>, Inr ()))"

definition date_now :: "env \<Rightarrow> string io" where
  "date_now env = (\<lambda>w. (w, Inr (now env (clock w))))"

text \<open>\<open>fs.pathExists\<close> of fs-extra resolves to a boolean and never rejects.\<close>

definition pathExists :: "string \<Rightarrow> bool io" where
  "pathExists p = (\<lambda>w. (w\<lparr>trace := trace w @ [PathExists p]\<rparr>, Inr (p \<in> files w)))"

text \<open>\<open>fs.unlink\<close>: rejects with the collaborator's error, or removes the path.\<close>

definition fs_unlink :: "env \<Rightarrow> string \<Rightarrow> unit io" where
  "fs_unlink env p =
     bindE (external (Unlink p) (\<lambda>t. void (unlink env t p)))
           (\<lambda>_ w. (w\<lparr>files := files w - {p}\<rparr>, Inr ()))"

section \<open>openai.service.js\<close>

text \<open>
  The service's methods. The vision request carries the bytes just read from the path and
  the type \<open>getMimeType\<close> derives from it; the path and the time of the request
  determine both, and they key the collaborator's answer.
\<close>

definition requiredEnvVars :: "string list" where
  "requiredEnvVars =
     [''OPENAI_API_KEY'', ''OPENAI_BASE_URL'', ''OPENAI_API_VERSION'', ''OPENAI_DEPLOYMENT_NAME'']"

definition validateApiKey :: "env \<Rightarrow> unit io" where
  "validateApiKey env =
     (let missingVars =
            filter (\<lambda>varName. case process_env env varName of
                                None \<Rightarrow> True
                              | Some v \<Rightarrow> v = [] \<or> v = ''your_openai_api_key'')
                   requiredEnvVars
      in if length missingVars > 0
         then throw (Error (''Azure OpenAI configuration incomplete. Missing or invalid: '' @
                            join '', '' missingVars @
                            ''. Please configure these in your .env file.''))
         else ret ())"

definition generateImageDescription :: "env \<Rightarrow> string \<Rightarrow> string io" where
  "generateImageDescription env imagePath =
     try_catch
       (bindE (external (ReadFile imagePath) (\<lambda>t. void (readFileSync env t imagePath))) (\<lambda>_.
        bindE (external (VisionRequest imagePath) (\<lambda>t. chat_completions_create env t imagePath))
          (\<lambda>content.
        ret (trim content))))
       (\<lambda>error.
          bindE (get_status error) (\<lambda>error_status.
          if error_status = Some 401
          then throw (Error ''Invalid Azure OpenAI API key or configuration. Please check your credentials in .env file'')
          else if error_status = Some 429
          then throw (Error ''Azure OpenAI API rate limit exceeded. Please try again later'')
          else if error_status = Some 400
          then throw (Error ''Invalid image format or request. Please check the image file and deployment configuration'')
          else if error_status = Some 404
          then throw (Error ''Azure OpenAI deployment not found. Please check OPENAI_DEPLOYMENT_NAME in .env file'')
          else throw error))"

definition generateTextEmbedding :: "env \<Rightarrow> string \<Rightarrow> real list io" where
  "generateTextEmbedding env text =
     try_catch
       (external (EmbeddingRequest text) (\<lambda>t. embeddings_create env t text))
       (\<lambda>error.
          bindE (get_status error) (\<lambda>error_status.
          if error_status = Some 401
          then throw (Error ''Invalid Azure OpenAI API key or configuration. Please check your credentials in .env file'')
          else if error_status = Some 429
          then throw (Error ''Azure OpenAI API rate limit exceeded. Please try again later'')
          else if error_status = Some 404
          then throw (Error ''Azure OpenAI embedding deployment not found. Please check OPENAI_EMBEDDING_DEPLOYMENT in .env file'')
          else throw error))"

definition processImage :: "env \<Rightarrow> string \<Rightarrow> processed_data io" where
  "processImage env imagePath =
     try_catch
       (bindE (generateImageDescription env imagePath) (\<lambda>description.
        bindE (generateTextEmbedding env description) (\<lambda>embedding.
        bindE (date_now env) (\<lambda>timestamp.
        ret \<lparr>description = description, embedding = embedding,
             filename = basename env imagePath, timestamp = timestamp\<rparr>))))
       (\<lambda>error. throw error)"

definition processSearchQuery :: "env \<Rightarrow> string \<Rightarrow> real list io" where
  "processSearchQuery env query = try_catch (generateTextEmbedding env query) (\<lambda>error. throw error)"

section \<open>The vector store's search\<close>

text \<open>A stored point as a match for a query vector: its metadata and its similarity.\<close>

definition hit_of :: "env \<Rightarrow> real list \<Rightarrow> stored_point \<Rightarrow> search_hit" where
  "hit_of env queryEmbedding p =
     \<lparr>hit_id = point_id p, hit_filename = point_filename p,
      hit_description = point_description p, hit_timestamp = point_timestamp p,
      score = similarity env queryEmbedding (point_vector p)\<rparr>"

text \<open>
  Modelled from the spec: \<open>qdrantService.searchSimilarImages\<close> of \<open>db/qdrant.js\<close>, which
  is not among the sources. The spec: return up to \<open>limit\<close> records whose similarity to
  the query vector is \<open>>= scoreThreshold\<close>, ranked descending by similarity; the call
  fails when the store is unreachable. The collection at the time of the request is
  \<open>store_points\<close>, the failure \<open>store_search_error\<close>.
\<close>

definition searchSimilarImages :: "env \<Rightarrow> real list \<Rightarrow> nat \<Rightarrow> real \<Rightarrow> search_hit list io" where
  "searchSimilarImages env queryEmbedding limit scoreThreshold =
     external SearchRequest
       (\<lambda>t. case store_search_error env t of
               Some e \<Rightarrow> Inl e
             | None \<Rightarrow>
                 Inr (take limit
                        (sort_key (\<lambda>h. - score h)
                           (filter (\<lambda>h. score h \<ge> scoreThreshold)
                              (map (hit_of env queryEmbedding) (store_points env t))))))"

section \<open>embedding.service.js\<close>

definition initialize :: "env \<Rightarrow> unit io" where
  "initialize env =
     try_catch
       (bindE (validateApiKey env) (\<lambda>_.
        bindE (external InitializeCollection (\<lambda>t. void (initializeCollection env t))) (\<lambda>_.
        set_isInitialized True)))
       (\<lambda>error. throw error)"

definition cleanupTemporaryFile :: "env \<Rightarrow> string \<Rightarrow> unit io" where
  "cleanupTemporaryFile env filePath =
     bindE (emit (Call_cleanupTemporaryFile filePath)) (\<lambda>_.
     try_catch
       (bindE (pathExists filePath) (\<lambda>exists.
        if exists then fs_unlink env filePath else ret ()))
       (\<lambda>error. emit (LogCleanupError filePath)))"

definition processUploadedImage :: "env \<Rightarrow> string \<Rightarrow> string \<Rightarrow> upload_result io" where
  "processUploadedImage env imagePath originalFilename =
     bindE (emit (Call_processUploadedImage imagePath originalFilename)) (\<lambda>_.
     try_catch
       (bindE get_isInitialized (\<lambda>initialized.
        bindE (if \<not> initialized then initialize env else ret ()) (\<lambda>_.
        bindE (processImage env imagePath) (\<lambda>processedData0.
        let processedData = processedData0\<lparr>filename := originalFilename\<rparr> in
        bindE (external (StoreRequest originalFilename)
                 (\<lambda>t. storeImageEmbedding env t processedData)) (\<lambda>pointId.
        bindE (cleanupTemporaryFile env imagePath) (\<lambda>_.
        ret \<lparr>success = True, pointId = pointId, res_filename = originalFilename,
             res_description = description processedData,
             res_timestamp = timestamp processedData\<rparr>))))))
       (\<lambda>error.
        bindE (cleanupTemporaryFile env imagePath) (\<lambda>_.
        throw error)))"

text \<open>
  The \<open>for (const file of imageFiles)\<close> loop, with its two arrays. The handler of the
  inner \<open>catch\<close> reads \<open>error.message\<close>; when that read throws, the loop is left and
  the error reaches the outer \<open>catch\<close> of \<open>processMultipleImages\<close>.
\<close>

fun batch_loop ::
  "env \<Rightarrow> uploaded_file list \<Rightarrow> upload_result list \<Rightarrow> failure list \<Rightarrow>
   (upload_result list \<times> failure list) io" where
  "batch_loop env [] results errors = ret (results, errors)"
| "batch_loop env (file # rest) results errors =
     bindE
       (try_catch
          (bindE (processUploadedImage env (path file) (originalname file)) (\<lambda>result.
           ret (push results result, errors)))
          (\<lambda>error.
           bindE (get_message error) (\<lambda>error_message.
           ret (results,
                push errors \<lparr>fail_filename = originalname file, fail_error = error_message\<rparr>))))
       (\<lambda>(results', errors'). batch_loop env rest results' errors')"

definition processMultipleImages :: "env \<Rightarrow> uploaded_file list \<Rightarrow> batch_result io" where
  "processMultipleImages env imageFiles =
     try_catch
       (bindE (batch_loop env imageFiles [] []) (\<lambda>(results, errors).
        ret \<lparr>successful = results, failed = errors,
             totalProcessed = length results, totalFailed = length errors\<rparr>))
       (\<lambda>error. throw error)"

text \<open>\<open>searchImages(queryText, limit = 10, scoreThreshold = 0.7)\<close>: an omitted argument
  is \<open>None\<close>.\<close>

definition searchImages :: "env \<Rightarrow> string \<Rightarrow> nat option \<Rightarrow> real option \<Rightarrow> search_result io" where
  "searchImages env queryText limit_arg scoreThreshold_arg =
     (let limit = (case limit_arg of None \<Rightarrow> 10 | Some l \<Rightarrow> l);
          scoreThreshold = (case scoreThreshold_arg of None \<Rightarrow> 7 / 10 | Some s \<Rightarrow> s)
      in try_catch
           (bindE get_isInitialized (\<lambda>initialized.
            bindE (if \<not> initialized then initialize env else ret ()) (\<lambda>_.
            bindE (processSearchQuery env queryText) (\<lambda>queryEmbedding.
            bindE (searchSimilarImages env queryEmbedding limit scoreThreshold) (\<lambda>results.
            ret \<lparr>sr_query = queryText, sr_results = results, totalFound = length results,
                 searchParams = (limit, scoreThreshold)\<rparr>)))))
           (\<lambda>error. throw error))"

text \<open>\<open>validateUploadedFile(file)\<close>; an absent file is \<open>None\<close>.\<close>

definition maxSize :: nat where
  "maxSize = 10 * 1024 * 1024"

definition allowedTypes :: "string list" where
  "allowedTypes = [''image/jpeg'', ''image/jpg'', ''image/png'', ''image/gif'', ''image/webp'']"

definition validateUploadedFile :: "uploaded_file option \<Rightarrow> thrown + bool" where
  "validateUploadedFile file =
     (case file of
        None \<Rightarrow> Inl (Error ''No file uploaded'')
      | Some f \<Rightarrow>
          if size_bytes f > maxSize
          then Inl (Error ''File size too large. Maximum size is 10MB'')
          else if mimetype f \<notin> set allowedTypes
          then Inl (Error ''Invalid file type. Only JPEG, PNG, GIF, and WebP images are allowed'')
          else Inr True)"

section \<open>Upload middleware\<close>

text \<open>
  \<open>fileFilter\<close>, which multer runs on every file before the controller sees it:
  \<open>cb(null, true)\<close> is \<open>Inr True\<close>, \<open>cb(new Error(...), false)\<close> is the error.
\<close>

definition fileFilter_allowedTypes :: "string list" where
  "fileFilter_allowedTypes =
     [''image/jpeg'', ''image/jpg'', ''image/png'', ''image/gif'', ''image/webp'', ''image/bmp'']"

definition fileFilter :: "uploaded_file \<Rightarrow> thrown + bool" where
  "fileFilter file =
     (if mimetype file \<in> set fileFilter_allowedTypes
      then Inr True
      else Inl (Error (''Invalid file type: '' @ mimetype file @
                       ''. Only JPEG, PNG, GIF, WebP, and BMP images are allowed.'')))"


section \<open>Upload controller\<close>

text \<open>
  What a handler does with a request: it responds with a status and a JSON body, or hands
  an error to the error middleware with \<open>next(error)\<close>. The bodies are
  \<open>{success: false, message, code}\<close> and \<open>{success: true, message, data}\<close> with the
  data of a single upload or of a batch; the \<open>message\<close> of a successful response is
  left out.
\<close>

datatype response_body =
    Failure_body string string
  | Single_upload upload_result
  | Batch_upload batch_result

datatype http_outcome = Respond nat response_body | Next thrown

record request =
  req_files :: "uploaded_file list option"
  req_file :: "uploaded_file option"

text \<open>\<open>try { ... } catch (error) { next(error) }\<close> around a handler's body.\<close>

definition handler :: "http_outcome io \<Rightarrow> world \<Rightarrow> world \<times> http_outcome" where
  "handler body = (\<lambda>w. case body w of (w', Inl error) \<Rightarrow> (w', Next error) | (w', Inr r) \<Rightarrow> (w', r))"

fun validate_files :: "uploaded_file list \<Rightarrow> unit io" where
  "validate_files [] = ret ()"
| "validate_files (file # rest) =
     (case validateUploadedFile (Some file) of
        Inl error \<Rightarrow> throw error
      | Inr _ \<Rightarrow> validate_files rest)"

definition uploadImages :: "env \<Rightarrow> request \<Rightarrow> world \<Rightarrow> world \<times> http_outcome" where
  "uploadImages env req =
     handler
       (let files = (case req_files req of
                       Some fs \<Rightarrow> fs
                     | None \<Rightarrow> (case req_file req of Some f \<Rightarrow> [f] | None \<Rightarrow> []))
        in if length files = 0
           then ret (Respond 400 (Failure_body ''No files uploaded. Please upload at least one image.''
                                               ''NO_FILES''))
           else bindE (validate_files files) (\<lambda>_.
                if length files = 1
                then bindE (processUploadedImage env (path (files ! 0)) (originalname (files ! 0)))
                       (\<lambda>result. ret (Respond 200 (Single_upload result)))
                else bindE (processMultipleImages env files) (\<lambda>result.
                       let statusCode = (if totalFailed result > 0 then 207 else 200)
                       in ret (Respond statusCode (Batch_upload result)))))"

text \<open>
  \<open>queryImages\<close>, up to its call of \<open>searchImages\<close>: the body's fields with their
  destructuring defaults, the check of the query, and the two normalised parameters.
  The result is the 400 response or the arguments of the call.
\<close>

record query_body =
  body_query :: jsval
  body_limit :: jsval
  body_scoreThreshold :: jsval

definition default_param :: "jsval \<Rightarrow> jsval \<Rightarrow> jsval" where
  "default_param v d = (if v = Undefined then d else v)"

definition searchLimit :: "(jsval \<Rightarrow> jsnum) \<Rightarrow> jsval \<Rightarrow> jsnum" where
  "searchLimit builtin limit =
     Math_min (Math_max (js_or (parseInt builtin limit) (Fin 10)) (Fin 1)) (Fin 50)"

definition threshold :: "(jsval \<Rightarrow> jsnum) \<Rightarrow> jsval \<Rightarrow> jsnum" where
  "threshold builtin scoreThreshold =
     Math_min (Math_max (js_or (parseFloat builtin scoreThreshold) (Fin (7 / 10))) (Fin 0)) (Fin 1)"

definition queryImages ::
  "(jsval \<Rightarrow> jsnum) \<Rightarrow> (jsval \<Rightarrow> jsnum) \<Rightarrow> query_body \<Rightarrow> http_outcome + (string \<times> jsnum \<times> jsnum)" where
  "queryImages builtin_parseInt builtin_parseFloat body =
     (let limit = default_param (body_limit body) (Num (Fin 10));
          scoreThreshold = default_param (body_scoreThreshold body) (Num (Fin (7 / 10)));
          invalid = Inl (Respond 400 (Failure_body
                      ''Query text is required and must be a non-empty string'' ''INVALID_QUERY''))
      in case body_query body of
           Str q \<Rightarrow>
             if length (trim q) = 0 then invalid
             else Inr (trim q, searchLimit builtin_parseInt limit,
                       threshold builtin_parseFloat scoreThreshold)
         | _ \<Rightarrow> invalid)"

section \<open>The client's query service\<close>

text \<open>The backend's JSON answer to \<open>POST /api/query\<close> as the client types it.\<close>

record query_response =
  qr_success :: bool
  qr_message :: string
  qr_data :: "search_result option"

record query_response_suggestions = query_response +
  suggestions :: "string list option"

record query_options =
  opt_limit :: "nat option"
  opt_scoreThreshold :: "real option"

text \<open>
  A rejected axios request: \<open>error.response\<close> is absent (\<open>None\<close>) or present with
  \<open>error.response.data?.message\<close>; \<open>error.message\<close>.
\<close>

record axios_error =
  response_message :: "string option option"
  axios_message :: "string option"

text \<open>\<open>QueryService.searchImages\<close>; \<open>post\<close> is what \<open>axios.post\<close> resolves to at a given
  time for a query, limit and threshold.\<close>

definition QueryService_searchImages ::
  "(nat \<Rightarrow> string \<Rightarrow> nat \<Rightarrow> real \<Rightarrow> axios_error + query_response) \<Rightarrow>
   string \<Rightarrow> query_options \<Rightarrow> world \<Rightarrow> world \<times> query_response" where
  "QueryService_searchImages post q options =
     (\<lambda>w. let limit = (case opt_limit options of None \<Rightarrow> 20 | Some l \<Rightarrow> l);
               scoreThreshold = (case opt_scoreThreshold options of None \<Rightarrow> 7 / 10 | Some s \<Rightarrow> s);
               w' = w\<lparr>trace := trace w @ [HttpPostQuery (trim q)], clock := Suc (clock w)\<rparr>
           in case post (clock w) (trim q) limit scoreThreshold of
                Inr response \<Rightarrow> (w', response)
              | Inl error \<Rightarrow>
                  (case response_message error of
                     Some m \<Rightarrow>
                       (w', \<lparr>qr_success = False, qr_message = str_or m ''Search failed'',
                             qr_data = None\<rparr>)
                   | None \<Rightarrow>
                       (w', \<lparr>qr_success = False,
                             qr_message = str_or (axios_message error) ''Network error during search'',
                             qr_data = None\<rparr>)))"

definition generateSearchSuggestions :: "string \<Rightarrow> string list" where
  "generateSearchSuggestions originalQuery =
     (let suggestions0 = [];
          words = split_on CHR '' '' (toLowerCase originalQuery);
          suggestions1 = push suggestions0 ''landscape'';
          suggestions2 = push suggestions1 ''people'';
          suggestions3 = push suggestions2 ''nature'';
          suggestions4 = push suggestions3 ''city'';
          suggestions5 = push suggestions4 ''sunset'';
          suggestions6 = push suggestions5 ''ocean'';
          suggestions7 = foldl (\<lambda>acc word. if length word > 3 then push acc word else acc)
                               suggestions6 words
      in take 5 (new_Set suggestions7))"

definition searchWithSuggestions ::
  "(nat \<Rightarrow> string \<Rightarrow> nat \<Rightarrow> real \<Rightarrow> axios_error + query_response) \<Rightarrow>
   string \<Rightarrow> query_options \<Rightarrow> world \<Rightarrow> world \<times> query_response_suggestions" where
  "searchWithSuggestions post q options =
     (\<lambda>w. case QueryService_searchImages post q options w of
             (w', result) \<Rightarrow>
               if qr_success result \<and>
                  (case qr_data result of None \<Rightarrow> False | Some d \<Rightarrow> totalFound d = 0)
               then (w', \<lparr>qr_success = qr_success result, qr_message = qr_message result,
                          qr_data = qr_data result,
                          suggestions = Some (generateSearchSuggestions q)\<rparr>)
               else (w', \<lparr>qr_success = qr_success result, qr_message = qr_message result,
                          qr_data = qr_data result, suggestions = None\<rparr>))"

section \<open>The specification's formulations\<close>

text \<open>
  Batch ingestion as a left fold: one step processes one file from the state the previous
  step left and extends one of the two lists. \<open>message_of\<close> is the message of what was
  thrown, if it has one.
\<close>

definition message_of :: "thrown \<Rightarrow> string option" where
  "message_of v = (case v of Thrown e \<Rightarrow> message e | _ \<Rightarrow> None)"

definition ingest_step ::
  "env \<Rightarrow> world \<times> upload_result list \<times> failure list \<Rightarrow> uploaded_file \<Rightarrow>
   world \<times> upload_result list \<times> failure list" where
  "ingest_step env acc file =
     (case acc of (w, successes, failures) \<Rightarrow>
        (case processUploadedImage env (path file) (originalname file) w of
           (w', Inr r) \<Rightarrow> (w', successes @ [r], failures)
         | (w', Inl e) \<Rightarrow>
             (w', successes,
              failures @ [\<lparr>fail_filename = originalname file, fail_error = message_of e\<rparr>])))"

definition ingest_fold :: "env \<Rightarrow> uploaded_file list \<Rightarrow> batch_result io" where
  "ingest_fold env fs =
     (\<lambda>w. case foldl (ingest_step env) (w, [], []) fs of
             (w', successes, failures) \<Rightarrow>
               (w', Inr \<lparr>successful = successes, failed = failures,
                         totalProcessed = length successes, totalFailed = length failures\<rparr>))"

text \<open>The outcome of each file of a batch, in input order, each file processed from the
  state the one before left; and what the batch records of them.\<close>

fun outcomes :: "env \<Rightarrow> uploaded_file list \<Rightarrow> world \<Rightarrow> (thrown + upload_result) list" where
  "outcomes env [] w = []"
| "outcomes env (file # rest) w =
     (case processUploadedImage env (path file) (originalname file) w of
        (w', outcome) \<Rightarrow> outcome # outcomes env rest w')"

definition recorded_failures :: "uploaded_file list \<Rightarrow> (thrown + upload_result) list \<Rightarrow> failure list" where
  "recorded_failures fs os =
     concat (map (\<lambda>(file, outcome).
                    case outcome of
                      Inl e \<Rightarrow> [\<lparr>fail_filename = originalname file, fail_error = message_of e\<rparr>]
                    | Inr _ \<Rightarrow> [])
                 (zip fs os))"

text \<open>An outcome that is a result, or a thrown value other than \<open>null\<close> and \<open>undefined\<close>.\<close>

definition readable :: "thrown + 'a \<Rightarrow> bool" where
  "readable outcome = (case outcome of Inl e \<Rightarrow> \<not> nullish e | Inr _ \<Rightarrow> True)"

definition recorded_successes :: "(thrown + upload_result) list \<Rightarrow> upload_result list" where
  "recorded_successes os = concat (map (\<lambda>outcome. case outcome of Inl _ \<Rightarrow> [] | Inr r \<Rightarrow> [r]) os)"



fun cleanup_calls :: "event list \<Rightarrow> string list" where
  "cleanup_calls [] = []"
| "cleanup_calls (Call_cleanupTemporaryFile p # es) = p # cleanup_calls es"
| "cleanup_calls (_ # es) = cleanup_calls es"

text \<open>
  The suggestions as the specification words them: the broad terms, then the words of
  the lowercased query longer than 3 characters, deduplicated keeping the first
  occurrence, cut to 5.
\<close>

definition broad_terms :: "string list" where
  "broad_terms = [''landscape'', ''people'', ''nature'', ''city'', ''sunset'', ''ocean'']"

definition dedup_first :: "'a list \<Rightarrow> 'a list" where
  "dedup_first xs = rev (remdups (rev xs))"

definition suggestions_spec :: "string \<Rightarrow> string list" where
  "suggestions_spec originalQuery =
     take 5 (dedup_first
               (broad_terms @
                filter (\<lambda>w. length w > 3) (split_on CHR '' '' (toLowerCase originalQuery))))"

text \<open>The search contract: ranked by non-increasing score, nothing below the threshold,
  at most \<open>limit\<close> entries.\<close>

definition ranked :: "search_hit list \<Rightarrow> bool" where
  "ranked hits = sorted_wrt (\<lambda>a b. score a \<ge> score b) hits"

definition none_below :: "real \<Rightarrow> search_hit list \<Rightarrow> bool" where
  "none_below scoreThreshold hits = list_all (\<lambda>h. \<not> score h < scoreThreshold) hits"


section \<open>Auxiliary notions for the proofs\<close>

text \<open>The \<open>try\<close> block of \<open>processUploadedImage\<close> up to the cleanup: initialisation,
  description and embedding, storing.\<close>

definition attempt :: "env \<Rightarrow> string \<Rightarrow> string \<Rightarrow> (processed_data \<times> string) io" where
  "attempt env imagePath originalFilename =
     bindE get_isInitialized (\<lambda>initialized.
     bindE (if \<not> initialized then initialize env else ret ()) (\<lambda>_.
     bindE (processImage env imagePath) (\<lambda>processedData0.
     let processedData = processedData0\<lparr>filename := originalFilename\<rparr> in
     bindE (external (StoreRequest originalFilename)
              (\<lambda>t. storeImageEmbedding env t processedData)) (\<lambda>pointId.
     ret (processedData, pointId)))))"


definition no_cleanup :: "'a io \<Rightarrow> bool" where
  "no_cleanup m = (\<forall>w. cleanup_calls (trace (fst (m w))) = cleanup_calls (trace w))"

section \<open>Sample collaborators and inputs\<close>

definition fileA :: uploaded_file where
  "fileA = \<lparr>path = ''uploads/images-1.png'', originalname = ''barn.png'',
            mimetype = ''image/png'', size_bytes = 2048\<rparr>"

definition fileB :: uploaded_file where
  "fileB = \<lparr>path = ''uploads/images-2.jpg'', originalname = ''lake.jpg'',
            mimetype = ''image/jpeg'', size_bytes = 4096\<rparr>"

definition bmp_file :: uploaded_file where
  "bmp_file = \<lparr>path = ''uploads/images-3.bmp'', originalname = ''icon.bmp'',
               mimetype = ''image/bmp'', size_bytes = 1000\<rparr>"

definition world0 :: world where
  "world0 = \<lparr>isInitialized = False, files = {''uploads/images-1.png'', ''uploads/images-2.jpg''},
             clock = 0, trace = []\<rparr>"

definition pointA :: stored_point where
  "pointA = \<lparr>point_id = ''p1'', point_vector = [92 / 100], point_filename = ''sunset.png'',
             point_description = ''sunset over mountains'',
             point_timestamp = ''2024-01-01T00:00:00.000Z''\<rparr>"

definition pointB :: stored_point where
  "pointB = \<lparr>point_id = ''p2'', point_vector = [1 / 2], point_filename = ''desk.png'',
             point_description = ''a desk'', point_timestamp = ''2024-01-01T00:00:00.000Z''\<rparr>"

text \<open>Every collaborator answers.\<close>

definition env_ok :: env where
  "env_ok =
     \<lparr>process_env = map_of [(''OPENAI_API_KEY'', ''key''), (''OPENAI_BASE_URL'', ''url''),
                            (''OPENAI_API_VERSION'', ''v''), (''OPENAI_DEPLOYMENT_NAME'', ''gpt-4o'')],
      initializeCollection = (\<lambda>t. None),
      readFileSync = (\<lambda>t p. None),
      chat_completions_create = (\<lambda>t p. Inr '' a red barn ''),
      embeddings_create = (\<lambda>t txt. Inr [1]),
      storeImageEmbedding = (\<lambda>t pd. Inr ''point-1''),
      store_points = (\<lambda>t. [pointB, pointA]),
      store_search_error = (\<lambda>t. None),
      similarity = (\<lambda>q v. sum_list (map2 (*) q v)),
      unlink = (\<lambda>t p. None),
      now = (\<lambda>t. ''2024-01-01T00:00:00.000Z''),
      basename = (\<lambda>p. p)\<rparr>"

text \<open>The vector store is unreachable: storing rejects.\<close>

definition env_store_down :: env where
  "env_store_down =
     env_ok\<lparr>storeImageEmbedding := (\<lambda>t pd. Inl (Error ''Qdrant connection refused''))\<rparr>"

text \<open>The provider rejects the credentials with status 401.\<close>

definition env_auth_failure :: env where
  "env_auth_failure =
     env_ok\<lparr>chat_completions_create :=
              (\<lambda>t p. Inl (Thrown \<lparr>status = Some 401, message = Some ''Unauthorized''\<rparr>))\<rparr>"

text \<open>The vector store's client rejects a write with \<open>null\<close>.\<close>

definition env_store_rejects_null :: env where
  "env_store_rejects_null = env_ok\<lparr>storeImageEmbedding := (\<lambda>t pd. Inl Thrown_null)\<rparr>"

text \<open>The description request for the second file times out.\<close>

definition env_timeout_B :: env where
  "env_timeout_B =
     env_ok\<lparr>chat_completions_create :=
              (\<lambda>t p. if p = ''uploads/images-2.jpg'' then Inl (Error ''Request timed out.'')
                      else Inr '' a red barn '')\<rparr>"

text \<open>Deleting a file fails.\<close>

definition env_unlink_fails :: env where
  "env_unlink_fails = env_ok\<lparr>unlink := (\<lambda>t p. Some (Error ''EPERM: operation not permitted''))\<rparr>"

text \<open>A backend that finds nothing.\<close>

definition post_nothing :: "nat \<Rightarrow> string \<Rightarrow> nat \<Rightarrow> real \<Rightarrow> axios_error + query_response" where
  "post_nothing t q l s =
     Inr \<lparr>qr_success = True, qr_message = ''Found 0 matching images'',
          qr_data = Some \<lparr>sr_query = q, sr_results = [], totalFound = 0, searchParams = (l, s)\<rparr>\<rparr>"

section \<open>Traces and the structure of processing one file\<close>


lemma cleanup_calls_append: "cleanup_calls (xs @ ys) = cleanup_calls xs @ cleanup_calls ys"
  by (induction xs rule: cleanup_calls.induct) simp_all







lemma no_cleanup_ret: "no_cleanup (ret x)"
  by (simp add: no_cleanup_def ret_def)

lemma no_cleanup_throw: "no_cleanup (throw e)"
  by (simp add: no_cleanup_def throw_def)

lemma no_cleanup_external:
  assumes "\<And>p. ev \<noteq> Call_cleanupTemporaryFile p"
  shows "no_cleanup (external ev answer)"
proof -
  have "cleanup_calls [ev] = []"
    using assms by (cases ev) auto
  then show ?thesis
    by (simp add: no_cleanup_def external_def cleanup_calls_append)
qed

lemma no_cleanup_bindE:
  assumes "no_cleanup m" and "\<And>x. no_cleanup (f x)"
  shows "no_cleanup (bindE m f)"
  unfolding no_cleanup_def
proof
  fix w
  obtain w1 r where mw: "m w = (w1, r)" by (cases "m w")
  from assms(1) have c1: "cleanup_calls (trace w1) = cleanup_calls (trace w)"
    unfolding no_cleanup_def using mw by (metis fst_conv)
  show "cleanup_calls (trace (fst (bindE m f w))) = cleanup_calls (trace w)"
  proof (cases r)
    case (Inl e)
    then show ?thesis using mw c1 by (simp add: bindE_def)
  next
    case (Inr x)
    from assms(2)[of x] have "cleanup_calls (trace (fst (f x w1))) = cleanup_calls (trace w1)"
      unfolding no_cleanup_def by blast
    then show ?thesis using mw c1 Inr by (simp add: bindE_def)
  qed
qed

lemma no_cleanup_try_catch:
  assumes "no_cleanup m" and "\<And>e. no_cleanup (h e)"
  shows "no_cleanup (try_catch m h)"
  unfolding no_cleanup_def
proof
  fix w
  obtain w1 r where mw: "m w = (w1, r)" by (cases "m w")
  from assms(1) have c1: "cleanup_calls (trace w1) = cleanup_calls (trace w)"
    unfolding no_cleanup_def using mw by (metis fst_conv)
  show "cleanup_calls (trace (fst (try_catch m h w))) = cleanup_calls (trace w)"
  proof (cases r)
    case (Inr x)
    then show ?thesis using mw c1 by (simp add: try_catch_def)
  next
    case (Inl e)
    from assms(2)[of e] have "cleanup_calls (trace (fst (h e w1))) = cleanup_calls (trace w1)"
      unfolding no_cleanup_def by blast
    then show ?thesis using mw c1 Inl by (simp add: try_catch_def)
  qed
qed


lemma no_cleanup_validateApiKey: "no_cleanup (validateApiKey env)"
  by (simp add: validateApiKey_def Let_def no_cleanup_ret no_cleanup_throw)


lemma no_cleanup_set_isInitialized: "no_cleanup (set_isInitialized b)"
  by (simp add: no_cleanup_def set_isInitialized_def)


lemma no_cleanup_get_isInitialized: "no_cleanup get_isInitialized"
  by (simp add: no_cleanup_def get_isInitialized_def)


lemma no_cleanup_date_now: "no_cleanup (date_now env)"
  by (simp add: no_cleanup_def date_now_def)


lemma no_cleanup_get_status: "no_cleanup (get_status error)"
  by (cases error) (simp_all add: get_status_def no_cleanup_ret no_cleanup_throw)


lemma no_cleanup_initialize: "no_cleanup (initialize env)"
  unfolding initialize_def
  by (intro no_cleanup_try_catch no_cleanup_bindE no_cleanup_validateApiKey
        no_cleanup_external no_cleanup_set_isInitialized no_cleanup_throw) simp


lemma no_cleanup_generateImageDescription: "no_cleanup (generateImageDescription env p)"
  unfolding generateImageDescription_def
  by (intro no_cleanup_try_catch no_cleanup_bindE no_cleanup_external no_cleanup_ret
        no_cleanup_get_status)
     (simp_all add: no_cleanup_throw)


lemma no_cleanup_generateTextEmbedding: "no_cleanup (generateTextEmbedding env txt)"
  unfolding generateTextEmbedding_def
  by (intro no_cleanup_try_catch no_cleanup_external no_cleanup_bindE no_cleanup_get_status)
     (simp_all add: no_cleanup_throw)


lemma no_cleanup_processImage: "no_cleanup (processImage env p)"
  unfolding processImage_def
  by (intro no_cleanup_try_catch no_cleanup_bindE no_cleanup_generateImageDescription
        no_cleanup_generateTextEmbedding no_cleanup_date_now no_cleanup_ret no_cleanup_throw)


lemma no_cleanup_attempt: "no_cleanup (attempt env p n)"
  unfolding attempt_def Let_def
  by (intro no_cleanup_bindE no_cleanup_get_isInitialized no_cleanup_processImage
        no_cleanup_external no_cleanup_ret)
     (simp_all add: no_cleanup_initialize no_cleanup_ret)

lemma cleanupTemporaryFile_returns:
  "snd (cleanupTemporaryFile env p w) = Inr ()"
  by (simp add: cleanupTemporaryFile_def bindE_def try_catch_def emit_def pathExists_def
        fs_unlink_def external_def ret_def void_def split: option.split)

lemma cleanupTemporaryFile_calls:
  "cleanup_calls (trace (fst (cleanupTemporaryFile env p w))) = cleanup_calls (trace w) @ [p]"
  by (simp add: cleanupTemporaryFile_def bindE_def try_catch_def emit_def pathExists_def
        fs_unlink_def external_def ret_def void_def cleanup_calls_append split: option.split)


lemma cleanupTemporaryFile_eq:
  "cleanupTemporaryFile env p w = (fst (cleanupTemporaryFile env p w), Inr ())"
  using cleanupTemporaryFile_returns[of env p w] by (cases "cleanupTemporaryFile env p w") simp


lemma bindE_assoc: "bindE (bindE m f) g = bindE m (\<lambda>x. bindE (f x) g)"
  by (auto simp: bindE_def fun_eq_iff split: prod.split sum.split)

lemma bindE_ret: "bindE (ret x) f = f x"
  by (simp add: bindE_def ret_def)

lemma try_catch_bindE:
  "try_catch (bindE m k) h w =
     (case m w of (w1, Inl e) \<Rightarrow> h e w1 | (w1, Inr x) \<Rightarrow> try_catch (k x) h w1)"
  by (simp add: try_catch_def bindE_def split: prod.split sum.split)

lemma cleanup_then_ret:
  "bindE (cleanupTemporaryFile env p) (\<lambda>_. ret r) w = (fst (cleanupTemporaryFile env p w), Inr r)"
  using cleanupTemporaryFile_returns[of env p w]
  by (cases "cleanupTemporaryFile env p w") (simp add: bindE_def ret_def)

lemma cleanup_then_throw:
  "bindE (cleanupTemporaryFile env p) (\<lambda>_. throw e) w = (fst (cleanupTemporaryFile env p w), Inl e)"
  using cleanupTemporaryFile_returns[of env p w]
  by (cases "cleanupTemporaryFile env p w") (simp add: bindE_def throw_def)

lemma processUploadedImage_attempt:
  "processUploadedImage env p n w =
     (case attempt env p n (w\<lparr>trace := trace w @ [Call_processUploadedImage p n]\<rparr>) of
        (w1, Inl e) \<Rightarrow> (fst (cleanupTemporaryFile env p w1), Inl e)
      | (w1, Inr (pd, pid)) \<Rightarrow>
          (fst (cleanupTemporaryFile env p w1),
           Inr \<lparr>success = True, pointId = pid, res_filename = n,
                res_description = description pd, res_timestamp = timestamp pd\<rparr>))"
proof -
  let ?finish = "\<lambda>(pd, pid). bindE (cleanupTemporaryFile env p) (\<lambda>_.
        ret \<lparr>success = True, pointId = pid, res_filename = n,
             res_description = description pd, res_timestamp = timestamp pd\<rparr>)"
  let ?handle = "\<lambda>error. bindE (cleanupTemporaryFile env p) (\<lambda>_. throw error)"
  have unfold: "processUploadedImage env p n =
      bindE (emit (Call_processUploadedImage p n))
        (\<lambda>_. try_catch (bindE (attempt env p n) ?finish) ?handle)"
    by (simp add: processUploadedImage_def attempt_def bindE_assoc bindE_ret Let_def)
  have finish: "try_catch (?finish x) ?handle w1 =
      (fst (cleanupTemporaryFile env p w1),
       Inr \<lparr>success = True, pointId = snd x, res_filename = n,
            res_description = description (fst x), res_timestamp = timestamp (fst x)\<rparr>)" for x w1
    by (cases x) (simp add: try_catch_def cleanup_then_ret)
  let ?w0 = "w\<lparr>trace := trace w @ [Call_processUploadedImage p n]\<rparr>"
  obtain w1 r where a: "attempt env p n ?w0 = (w1, r)"
    by (cases "attempt env p n ?w0")
  have start: "processUploadedImage env p n w =
      try_catch (bindE (attempt env p n) ?finish) ?handle ?w0"
    by (simp add: unfold bindE_def emit_def)
  show ?thesis
  proof (cases r)
    case (Inl e)
    then show ?thesis
      by (simp add: start try_catch_bindE a cleanup_then_throw)
  next
    case (Inr x)
    then show ?thesis
      by (cases x) (simp add: start try_catch_bindE a finish)
  qed
qed

lemma initialize_unlink: "initialize (env\<lparr>unlink := u\<rparr>) = initialize env"
  by (simp add: initialize_def validateApiKey_def)

lemma processImage_unlink: "processImage (env\<lparr>unlink := u\<rparr>) p = processImage env p"
  by (simp add: processImage_def generateImageDescription_def generateTextEmbedding_def
        date_now_def)

lemma attempt_unlink: "attempt (env\<lparr>unlink := u\<rparr>) p n = attempt env p n"
  by (simp add: attempt_def initialize_unlink processImage_unlink cong: if_cong)

lemma processUploadedImage_calls:
  "cleanup_calls (trace (fst (processUploadedImage env p n w))) = cleanup_calls (trace w) @ [p]"
proof -
  let ?w0 = "w\<lparr>trace := trace w @ [Call_processUploadedImage p n]\<rparr>"
  have "cleanup_calls (trace (fst (attempt env p n ?w0))) = cleanup_calls (trace ?w0)"
    using no_cleanup_attempt[of env p n] unfolding no_cleanup_def by blast
  then have a: "cleanup_calls (trace (fst (attempt env p n ?w0))) = cleanup_calls (trace w)"
    by (simp add: cleanup_calls_append)
  obtain w1 r where "attempt env p n ?w0 = (w1, r)"
    by (cases "attempt env p n ?w0")
  then show ?thesis
    using a by (cases r) (auto simp: processUploadedImage_attempt cleanupTemporaryFile_calls)
qed


lemma processUploadedImage_outcome_unlink:
  "snd (processUploadedImage (env\<lparr>unlink := u\<rparr>) p n w) = snd (processUploadedImage env p n w)"
proof -
  let ?w0 = "w\<lparr>trace := trace w @ [Call_processUploadedImage p n]\<rparr>"
  obtain w1 r where "attempt env p n ?w0 = (w1, r)"
    by (cases "attempt env p n ?w0")
  then show ?thesis
    by (cases r) (auto simp: processUploadedImage_attempt attempt_unlink)
qed

lemma get_message_readable: "\<not> nullish e \<Longrightarrow> get_message e = ret (message_of e)"
  by (cases e) (simp_all add: nullish_def get_message_def message_of_def)

lemma get_message_nullish:
  "nullish e \<Longrightarrow> get_message e = throw (TypeError_reading e ''message'')"
  by (cases e) (simp_all add: nullish_def get_message_def)

lemma batch_loop_fold:
  assumes "list_all readable (outcomes env fs w)"
  shows "batch_loop env fs rs es w =
     (case foldl (ingest_step env) (w, rs, es) fs of (w', rs', es') \<Rightarrow> (w', Inr (rs', es')))"
  using assms
proof (induction fs arbitrary: rs es w)
  case Nil
  then show ?case by (simp add: ret_def)
next
  case (Cons f fs)
  obtain w1 r where step: "processUploadedImage env (path f) (originalname f) w = (w1, r)"
    by (cases "processUploadedImage env (path f) (originalname f) w")
  from Cons.prems step have ok: "readable r" and rest: "list_all readable (outcomes env fs w1)"
    by simp_all
  show ?case
  proof (cases r)
    case (Inl e)
    with ok have "get_message e = ret (message_of e)"
      by (simp add: readable_def get_message_readable)
    then show ?thesis
      using step Inl Cons.IH[OF rest]
      by (simp add: bindE_def try_catch_def ret_def push_def ingest_step_def)
  next
    case (Inr x)
    then show ?thesis
      using step Cons.IH[OF rest]
      by (simp add: bindE_def try_catch_def ret_def push_def ingest_step_def)
  qed
qed

lemma batch_loop_returns:
  assumes "batch_loop env fs rs es w = (w', Inr res)"
  shows "list_all readable (outcomes env fs w)"
  using assms
proof (induction fs arbitrary: rs es w)
  case Nil
  then show ?case by simp
next
  case (Cons f fs)
  obtain w1 r where step: "processUploadedImage env (path f) (originalname f) w = (w1, r)"
    by (cases "processUploadedImage env (path f) (originalname f) w")
  show ?case
  proof (cases r)
    case (Inl e)
    show ?thesis
    proof (cases "nullish e")
      case True
      then have "batch_loop env (f # fs) rs es w = (w1, Inl (TypeError_reading e ''message''))"
        using step Inl
        by (simp add: bindE_def try_catch_def throw_def get_message_nullish)
      with Cons.prems show ?thesis by simp
    next
      case False
      then have "batch_loop env (f # fs) rs es w =
          batch_loop env fs rs
            (es @ [\<lparr>fail_filename = originalname f, fail_error = message_of e\<rparr>]) w1"
        using step Inl
        by (simp add: bindE_def try_catch_def ret_def push_def get_message_readable)
      with Cons.prems Cons.IH have rest: "list_all readable (outcomes env fs w1)"
        by simp
      have "readable r"
        using Inl False by (simp add: readable_def)
      then show ?thesis using step rest by simp
    qed
  next
    case (Inr x)
    then have "batch_loop env (f # fs) rs es w = batch_loop env fs (rs @ [x]) es w1"
      using step by (simp add: bindE_def try_catch_def ret_def push_def)
    with Cons.prems Cons.IH have rest: "list_all readable (outcomes env fs w1)"
      by simp
    have "readable r"
      using Inr by (simp add: readable_def)
    then show ?thesis using step rest by simp
  qed
qed

lemma processMultipleImages_batch_loop:
  "processMultipleImages env fs w =
     (case batch_loop env fs [] [] w of
        (w', Inl e) \<Rightarrow> (w', Inl e)
      | (w', Inr (rs, es)) \<Rightarrow>
          (w', Inr \<lparr>successful = rs, failed = es,
                    totalProcessed = length rs, totalFailed = length es\<rparr>))"
  by (simp add: processMultipleImages_def try_catch_def bindE_def ret_def throw_def
        split: prod.split sum.split)

lemma processMultipleImages_fold:
  assumes "list_all readable (outcomes env fs w)"
  shows "processMultipleImages env fs w = ingest_fold env fs w"
  by (simp add: processMultipleImages_batch_loop batch_loop_fold[OF assms] ingest_fold_def
        split: prod.split)

lemma processMultipleImages_returns:
  assumes "processMultipleImages env fs w = (w', Inr r)"
  shows "list_all readable (outcomes env fs w)"
proof -
  obtain w1 res where b: "batch_loop env fs [] [] w = (w1, res)"
    by (cases "batch_loop env fs [] [] w")
  with assms obtain x where "res = Inr x"
    by (cases res) (auto simp: processMultipleImages_batch_loop)
  with b show ?thesis using batch_loop_returns by blast
qed



lemma ingest_step_cases:
  "ingest_step env (w, rs, es) f =
     (case processUploadedImage env (path f) (originalname f) w of
        (w', Inr r) \<Rightarrow> (w', rs @ [r], es)
      | (w', Inl e) \<Rightarrow> (w', rs, es @ [\<lparr>fail_filename = originalname f, fail_error = message_of e\<rparr>]))"
  by (simp add: ingest_step_def)

lemma ingest_fold_partition:
  assumes "foldl (ingest_step env) (w, rs, es) fs = (w', rs', es')"
  shows "\<exists>flags. length flags = length fs \<and>
           map res_filename rs' =
             map res_filename rs @ map originalname (map fst (filter snd (zip fs flags))) \<and>
           map fail_filename es' =
             map fail_filename es @
             map originalname (map fst (filter (\<lambda>x. \<not> snd x) (zip fs flags)))"
  using assms
proof (induction fs arbitrary: w rs es)
  case Nil
  then show ?case by simp
next
  case (Cons f fs)
  obtain w1 r where step: "processUploadedImage env (path f) (originalname f) w = (w1, r)"
    by (cases "processUploadedImage env (path f) (originalname f) w")
  show ?case
  proof (cases r)
    case (Inl e)
    let ?es1 = "es @ [\<lparr>fail_filename = originalname f, fail_error = message_of e\<rparr>]"
    from Cons.prems step Inl
    have "foldl (ingest_step env) (w1, rs, ?es1) fs = (w', rs', es')"
      by (simp add: ingest_step_cases)
    from Cons.IH[OF this] obtain flags where
      fl: "length flags = length fs"
        "map res_filename rs' =
           map res_filename rs @ map originalname (map fst (filter snd (zip fs flags)))"
        "map fail_filename es' =
           map fail_filename ?es1 @
           map originalname (map fst (filter (\<lambda>x. \<not> snd x) (zip fs flags)))"
      by blast
    show ?thesis
      by (rule exI[of _ "False # flags"]) (use fl in simp)
  next
    case (Inr x)
    let ?rs1 = "rs @ [x]"
    have rf: "res_filename x = originalname f"
      using step Inr
      by (auto simp: processUploadedImage_attempt split: prod.splits sum.splits)
    from Cons.prems step Inr
    have "foldl (ingest_step env) (w1, ?rs1, es) fs = (w', rs', es')"
      by (simp add: ingest_step_cases)
    from Cons.IH[OF this] obtain flags where
      fl: "length flags = length fs"
        "map res_filename rs' =
           map res_filename ?rs1 @ map originalname (map fst (filter snd (zip fs flags)))"
        "map fail_filename es' =
           map fail_filename es @
           map originalname (map fst (filter (\<lambda>x. \<not> snd x) (zip fs flags)))"
      by blast
    show ?thesis
      by (rule exI[of _ "True # flags"]) (use fl rf in simp)
  qed
qed

lemma ingest_fold_lengths:
  assumes "foldl (ingest_step env) (w, rs, es) fs = (w', rs', es')"
  shows "length rs' + length es' = length rs + length es + length fs"
  using assms
proof (induction fs arbitrary: w rs es)
  case Nil
  then show ?case by simp
next
  case (Cons f fs)
  obtain w1 rs1 es1 where s1: "ingest_step env (w, rs, es) f = (w1, rs1, es1)"
    by (cases "ingest_step env (w, rs, es) f") auto
  then have l1: "length rs1 + length es1 = length rs + length es + 1"
    by (auto simp: ingest_step_cases split: prod.splits sum.splits)
  from Cons.prems s1 have "foldl (ingest_step env) (w1, rs1, es1) fs = (w', rs', es')"
    by simp
  from Cons.IH[OF this] l1 show ?case by simp
qed





section \<open>Suggestions and validation: auxiliary facts\<close>


lemma foldl_push_filter:
  "foldl (\<lambda>acc word. if P word then push acc word else acc) xs ws = xs @ filter P ws"
  by (induction ws arbitrary: xs) (simp_all add: push_def)

lemma new_Set_snoc: "new_Set (xs @ [x]) = Set_add (new_Set xs) x"
  by (simp add: new_Set_def)

lemma dedup_first_snoc:
  "dedup_first (xs @ [x]) = (if x \<in> set xs then dedup_first xs else dedup_first xs @ [x])"
  by (simp add: dedup_first_def)

lemma set_dedup_first: "set (dedup_first xs) = set xs"
  by (simp add: dedup_first_def)

lemma new_Set_dedup_first: "new_Set xs = dedup_first xs"
proof (induction xs rule: rev_induct)
  case Nil
  then show ?case by (simp add: new_Set_def dedup_first_def)
next
  case (snoc x xs)
  then show ?case
    by (simp add: new_Set_snoc dedup_first_snoc Set_add_def set_dedup_first)
qed

lemma distinct_dedup_first: "distinct (dedup_first xs)"
  by (simp add: dedup_first_def)

lemma generateSearchSuggestions_spec: "generateSearchSuggestions q = suggestions_spec q"
  by (simp add: generateSearchSuggestions_def suggestions_spec_def Let_def push_def
        foldl_push_filter new_Set_dedup_first broad_terms_def)

lemma Set_add_prefix: "\<exists>ys. foldl Set_add acc xs = acc @ ys"
proof (induction xs arbitrary: acc)
  case Nil
  then show ?case by simp
next
  case (Cons x xs)
  obtain ys where ys: "foldl Set_add (Set_add acc x) xs = Set_add acc x @ ys"
    using Cons.IH by blast
  obtain zs where "Set_add acc x = acc @ zs"
    by (cases "x \<in> set acc") (simp_all add: Set_add_def)
  then show ?case using ys by simp
qed

lemma new_Set_broad_terms: "new_Set broad_terms = broad_terms"
  by (simp add: new_Set_def broad_terms_def Set_add_def)

lemma validateUploadedFile_throws_iff:
  "(\<exists>e. validateUploadedFile file = Inl e) \<longleftrightarrow>
     (file = None \<or>
      (\<exists>f. file = Some f \<and> (size_bytes f > 10 * 1024 * 1024 \<or>
         mimetype f \<notin> {''image/jpeg'', ''image/jpg'', ''image/png'', ''image/gif'', ''image/webp''})))"
  by (cases "file") (auto simp: validateUploadedFile_def maxSize_def allowedTypes_def)

lemma ingest_fold_outcomes:
  "\<exists>w'. foldl (ingest_step env) (w, rs, es) fs =
     (w', rs @ recorded_successes (outcomes env fs w),
          es @ recorded_failures fs (outcomes env fs w))"
proof (induction fs arbitrary: w rs es)
  case Nil
  then show ?case by (simp add: recorded_successes_def recorded_failures_def)
next
  case (Cons f fs)
  obtain w1 r where step: "processUploadedImage env (path f) (originalname f) w = (w1, r)"
    by (cases "processUploadedImage env (path f) (originalname f) w")
  show ?case
  proof (cases r)
    case (Inl e)
    then show ?thesis
      using step Cons.IH[of w1 rs "es @ [\<lparr>fail_filename = originalname f, fail_error = message_of e\<rparr>]"]
      by (auto simp: ingest_step_cases recorded_successes_def recorded_failures_def)
  next
    case (Inr x)
    then show ?thesis
      using step Cons.IH[of w1 "rs @ [x]" es]
      by (auto simp: ingest_step_cases recorded_successes_def recorded_failures_def)
  qed
qed

lemma length_suggestions_spec: "length (suggestions_spec q) \<le> 5"
  by (simp add: suggestions_spec_def)

lemma distinct_suggestions_spec: "distinct (suggestions_spec q)"
  by (simp add: suggestions_spec_def distinct_dedup_first)

lemma QueryService_searchImages_trace:
  "trace (fst (QueryService_searchImages post q options w)) = trace w @ [HttpPostQuery (trim q)]"
  by (simp add: QueryService_searchImages_def Let_def split: sum.split option.split)

section \<open>The search contract: auxiliary facts\<close>

lemma ranked_sort_take:
  "ranked (take n (sort_key (\<lambda>h. - score h) hits))"
proof -
  have "sorted (map (\<lambda>h. - score h) (sort_key (\<lambda>h. - score h) hits))"
    by (rule sorted_sort_key)
  then have "sorted_wrt (\<lambda>a b. score a \<ge> score b) (sort_key (\<lambda>h. - score h) hits)"
    by (simp add: sorted_map)
  then show ?thesis
    unfolding ranked_def by (rule sorted_wrt_take)
qed

lemma none_below_take_sort_filter:
  "none_below s (take n (sort_key f (filter (\<lambda>h. score h \<ge> s) hits)))"
proof -
  have "set (take n (sort_key f (filter (\<lambda>h. score h \<ge> s) hits)))
          \<subseteq> set (filter (\<lambda>h. score h \<ge> s) hits)"
    using set_take_subset[of n "sort_key f (filter (\<lambda>h. score h \<ge> s) hits)"] by simp
  then show ?thesis
    by (auto simp: none_below_def list_all_iff)
qed

lemma searchSimilarImages_contract:
  assumes "searchSimilarImages env qe limit s w = (w', Inr hits)"
  shows "ranked hits \<and> none_below s hits \<and> length hits \<le> limit"
proof -
  from assms have "hits = take limit (sort_key (\<lambda>h. - score h)
      (filter (\<lambda>h. score h \<ge> s) (map (hit_of env qe) (store_points env (clock w)))))"
    by (auto simp: searchSimilarImages_def external_def split: option.splits)
  then show ?thesis
    by (simp add: ranked_sort_take none_below_take_sort_filter)
qed

section \<open>Request parameters: auxiliary facts\<close>

lemma searchLimit_range: "\<exists>l. searchLimit builtin v = Fin l \<and> 1 \<le> l \<and> l \<le> 50"
  by (cases "parseInt builtin v")
     (auto simp: searchLimit_def js_or_def Math_max_def Math_min_def)

lemma threshold_range_case:
  "(case threshold builtin v of Fin t \<Rightarrow> 0 \<le> t \<and> t \<le> 1 | _ \<Rightarrow> False)"
  by (cases "parseFloat builtin v")
     (auto simp: threshold_def js_or_def Math_max_def Math_min_def)

lemma threshold_range: "\<exists>t. threshold builtin v = Fin t \<and> 0 \<le> t \<and> t \<le> 1"
  using threshold_range_case[of builtin v] by (cases "threshold builtin v") auto

lemma searchLimit_default: "searchLimit builtin (default_param Undefined (Num (Fin 10))) = Fin 10"
  by (simp add: searchLimit_def default_param_def parseInt_def js_or_def Math_max_def Math_min_def)

lemma threshold_default:
  "threshold builtin (default_param Undefined (Num (Fin (7 / 10)))) = Fin (7 / 10)"
  by (simp add: threshold_def default_param_def parseFloat_def js_or_def Math_max_def Math_min_def)

section \<open>Sample runs\<close>

lemmas run_defs =
  processMultipleImages_def processUploadedImage_def cleanupTemporaryFile_def initialize_def
  processImage_def generateImageDescription_def generateTextEmbedding_def validateApiKey_def
  requiredEnvVars_def bindE_def try_catch_def ret_def throw_def emit_def external_def void_def
  get_isInitialized_def set_isInitialized_def date_now_def pathExists_def fs_unlink_def
  push_def Error_def trim_def is_space_def Let_def get_status_def get_message_def
  env_ok_def fileA_def fileB_def world0_def

lemma run_timeout_B:
  "processMultipleImages env_timeout_B [fileA, fileB] world0 =
   (\<lparr>isInitialized = True, files = {}, clock = 9,
     trace =
       [Call_processUploadedImage ''uploads/images-1.png'' ''barn.png'',
        InitializeCollection, ReadFile ''uploads/images-1.png'',
        VisionRequest ''uploads/images-1.png'',
        EmbeddingRequest ''a red barn'', StoreRequest ''barn.png'',
        Call_cleanupTemporaryFile ''uploads/images-1.png'',
        PathExists ''uploads/images-1.png'',
        Unlink ''uploads/images-1.png'',
        Call_processUploadedImage ''uploads/images-2.jpg'' ''lake.jpg'',
        ReadFile ''uploads/images-2.jpg'',
        VisionRequest ''uploads/images-2.jpg'',
        Call_cleanupTemporaryFile ''uploads/images-2.jpg'',
        PathExists ''uploads/images-2.jpg'',
        Unlink ''uploads/images-2.jpg'']\<rparr>,
  Inr \<lparr>successful =
         [\<lparr>success = True, pointId = ''point-1'',
             res_filename = ''barn.png'', res_description = ''a red barn'',
             res_timestamp = ''2024-01-01T00:00:00.000Z''\<rparr>],
         failed =
           [\<lparr>fail_filename = ''lake.jpg'',
               fail_error = Some ''Request timed out.''\<rparr>],
         totalProcessed = 1, totalFailed = 1\<rparr>)"
  by (simp add: run_defs env_timeout_B_def)


lemma outcomes_store_down:
  "outcomes env_store_down [fileA, fileB] world0 =
     [Inl (Error ''Qdrant connection refused''), Inl (Error ''Qdrant connection refused'')]"
  by (simp add: run_defs env_store_down_def)

text \<open>A write rejected with \<open>null\<close>: the batch raises the \<open>TypeError\<close> of reading
  \<open>error.message\<close>, after the first file's cleanup and before the second file.\<close>

lemma run_store_rejects_null:
  "processMultipleImages env_store_rejects_null [fileA, fileB] world0 =
   (\<lparr>isInitialized = True, files = {''uploads/images-2.jpg''}, clock = 6,
     trace =
       [Call_processUploadedImage ''uploads/images-1.png'' ''barn.png'',
        InitializeCollection, ReadFile ''uploads/images-1.png'',
        VisionRequest ''uploads/images-1.png'',
        EmbeddingRequest ''a red barn'', StoreRequest ''barn.png'',
        Call_cleanupTemporaryFile ''uploads/images-1.png'',
        PathExists ''uploads/images-1.png'',
        Unlink ''uploads/images-1.png'']\<rparr>,
    Inl (TypeError_reading Thrown_null ''message''))"
  by (simp add: run_defs env_store_rejects_null_def TypeError_reading_def)


lemma run_single_A:
  "processUploadedImage env_ok (path fileA) (originalname fileA) world0 =
   (\<lparr>isInitialized = True, files = {''uploads/images-2.jpg''}, clock = 6,
     trace =
       [Call_processUploadedImage ''uploads/images-1.png'' ''barn.png'',
        InitializeCollection, ReadFile ''uploads/images-1.png'',
        VisionRequest ''uploads/images-1.png'',
        EmbeddingRequest ''a red barn'', StoreRequest ''barn.png'',
        Call_cleanupTemporaryFile ''uploads/images-1.png'',
        PathExists ''uploads/images-1.png'',
        Unlink ''uploads/images-1.png'']\<rparr>,
    Inr \<lparr>success = True, pointId = ''point-1'', res_filename = ''barn.png'',
        res_description = ''a red barn'',
        res_timestamp = ''2024-01-01T00:00:00.000Z''\<rparr>)"
  by (simp add: run_defs)

lemma processUploadedImage_filename:
  "processUploadedImage env p n w = (w1, Inr r) \<Longrightarrow> res_filename r = n \<and> success r"
  by (auto simp: processUploadedImage_attempt split: prod.splits sum.splits)

lemma run_query_low:
  "queryImages (\<lambda>_. NaN) (\<lambda>_. NaN)
     \<lparr>body_query = Str '' cats '', body_limit = Num (Fin (- 3)), body_scoreThreshold = Num (Fin 2)\<rparr> =
   Inr (''cats'', Fin 1, Fin 1)"
  by (simp add: queryImages_def default_param_def searchLimit_def threshold_def parseInt_def
        parseFloat_def js_or_def Math_max_def Math_min_def trim_def is_space_def Let_def)

lemma run_query_absent:
  "queryImages (\<lambda>_. NaN) (\<lambda>_. NaN)
     \<lparr>body_query = Str '' cats '', body_limit = Undefined, body_scoreThreshold = Undefined\<rparr> =
   Inr (''cats'', Fin 10, Fin (7 / 10))"
  by (simp add: queryImages_def default_param_def searchLimit_def threshold_def parseInt_def
        parseFloat_def js_or_def Math_max_def Math_min_def trim_def is_space_def Let_def)

lemma run_query_high:
  "queryImages (\<lambda>_. NaN) (\<lambda>_. NaN)
     \<lparr>body_query = Str '' cats '', body_limit = Num (Fin 51), body_scoreThreshold = Num (Fin (- 1))\<rparr> =
   Inr (''cats'', Fin 50, Fin 0)"
  by (simp add: queryImages_def default_param_def searchLimit_def threshold_def parseInt_def
        parseFloat_def js_or_def Math_max_def Math_min_def trim_def is_space_def Let_def)

lemma run_query_zero:
  "queryImages (\<lambda>_. NaN) (\<lambda>_. NaN)
     \<lparr>body_query = Str '' cats '', body_limit = Num (Fin 0), body_scoreThreshold = Num (Fin 0)\<rparr> =
   Inr (''cats'', Fin 10, Fin (7 / 10))"
  by (simp add: queryImages_def default_param_def searchLimit_def threshold_def parseInt_def
        parseFloat_def js_or_def Math_max_def Math_min_def trim_def is_space_def Let_def)

lemma run_search_nothing:
  "searchWithSuggestions post_nothing '' zzqqxx '' \<lparr>opt_limit = Some 50, opt_scoreThreshold = Some (3 / 5)\<rparr> world0 =
   (\<lparr>isInitialized = False,
     files = {''uploads/images-1.png'', ''uploads/images-2.jpg''},
     clock = 1, trace = [HttpPostQuery ''zzqqxx'']\<rparr>,
  \<lparr>qr_success = True, qr_message = ''Found 0 matching images'',
     qr_data =
       Some
        \<lparr>sr_query = ''zzqqxx'', sr_results = [], totalFound = 0,
           searchParams = (50, 3 / 5)\<rparr>,
     suggestions =
       Some [''landscape'', ''people'', ''nature'', ''city'', ''sunset'']\<rparr>)"
  by (simp add: searchWithSuggestions_def QueryService_searchImages_def post_nothing_def
        world0_def trim_def is_space_def Let_def generateSearchSuggestions_def push_def
        toLowerCase_def new_Set_def Set_add_def)

lemma run_search_both:
  "searchImages env_ok ''sunset over mountains'' (Some 5) (Some (1 / 10)) world0 =
   (\<lparr>isInitialized = True,
     files = {''uploads/images-1.png'', ''uploads/images-2.jpg''},
     clock = 3,
     trace = [InitializeCollection, EmbeddingRequest ''sunset over mountains'', SearchRequest]\<rparr>,
    Inr \<lparr>sr_query = ''sunset over mountains'',
         sr_results =
           [\<lparr>hit_id = ''p1'', hit_filename = ''sunset.png'',
             hit_description = ''sunset over mountains'',
             hit_timestamp = ''2024-01-01T00:00:00.000Z'', score = 23 / 25\<rparr>,
            \<lparr>hit_id = ''p2'', hit_filename = ''desk.png'', hit_description = ''a desk'',
             hit_timestamp = ''2024-01-01T00:00:00.000Z'', score = 1 / 2\<rparr>],
         totalFound = 2, searchParams = (5, 1 / 10)\<rparr>)"
  by (simp add: searchImages_def searchSimilarImages_def processSearchQuery_def hit_of_def
        initialize_def generateTextEmbedding_def validateApiKey_def
        requiredEnvVars_def bindE_def try_catch_def ret_def throw_def external_def void_def
        get_isInitialized_def set_isInitialized_def Let_def env_ok_def world0_def
        pointA_def pointB_def)

lemma run_search_threshold:
  "searchImages env_ok ''sunset over mountains'' (Some 5) (Some (7 / 10)) world0 =
   (\<lparr>isInitialized = True,
     files = {''uploads/images-1.png'', ''uploads/images-2.jpg''},
     clock = 3,
     trace = [InitializeCollection, EmbeddingRequest ''sunset over mountains'', SearchRequest]\<rparr>,
    Inr \<lparr>sr_query = ''sunset over mountains'',
         sr_results =
           [\<lparr>hit_id = ''p1'', hit_filename = ''sunset.png'',
             hit_description = ''sunset over mountains'',
             hit_timestamp = ''2024-01-01T00:00:00.000Z'', score = 23 / 25\<rparr>],
         totalFound = 1, searchParams = (5, 7 / 10)\<rparr>)"
  by (simp add: searchImages_def searchSimilarImages_def processSearchQuery_def hit_of_def
        initialize_def generateTextEmbedding_def validateApiKey_def
        requiredEnvVars_def bindE_def try_catch_def ret_def throw_def external_def void_def
        get_isInitialized_def set_isInitialized_def Let_def env_ok_def world0_def
        pointA_def pointB_def)

section \<open>The claims\<close>

text \<open>
  Claim C1. Whenever \<open>processMultipleImages\<close> returns, the two lists of its result have
  together as many entries as there were input files, \<open>totalProcessed + totalFailed\<close> is
  that number too, and every input file contributes to exactly one of the lists: a flag
  per file says which, the successes are the flagged files and the failures the others,
  both in input order.
\<close>

theorem batch_counts:
  assumes "processMultipleImages env imageFiles w = (w', Inr r)"
  shows "length (successful r) + length (failed r) = length imageFiles \<and>
         totalProcessed r + totalFailed r = length imageFiles \<and>
         (\<exists>flags. length flags = length imageFiles \<and>
            map res_filename (successful r) =
              map originalname (map fst (filter snd (zip imageFiles flags))) \<and>
            map fail_filename (failed r) =
              map originalname (map fst (filter (\<lambda>x. \<not> snd x) (zip imageFiles flags))))"
proof -
  obtain w1 rs es where fold: "foldl (ingest_step env) (w, [], []) imageFiles = (w1, rs, es)"
    by (cases "foldl (ingest_step env) (w, [], []) imageFiles") auto
  have ok: "list_all readable (outcomes env imageFiles w)"
    using assms by (rule processMultipleImages_returns)
  from assms fold have r: "r = \<lparr>successful = rs, failed = es,
      totalProcessed = length rs, totalFailed = length es\<rparr>"
    by (simp add: processMultipleImages_fold[OF ok] ingest_fold_def)
  from ingest_fold_lengths[OF fold] have len: "length rs + length es = length imageFiles"
    by simp
  from ingest_fold_partition[OF fold] obtain flags where
    "length flags = length imageFiles"
    "map res_filename rs = map originalname (map fst (filter snd (zip imageFiles flags)))"
    "map fail_filename es =
       map originalname (map fst (filter (\<lambda>x. \<not> snd x) (zip imageFiles flags)))"
    by auto
  then show ?thesis using r len by auto
qed

theorem batch_counts_witness:
  "\<exists>w' r. processMultipleImages env_timeout_B [fileA, fileB] world0 = (w', Inr r) \<and>
     length (successful r) + length (failed r) = 2 \<and>
     totalProcessed r + totalFailed r = 2 \<and>
     map res_filename (successful r) = [''barn.png''] \<and>
     map fail_filename (failed r) = [''lake.jpg'']"
proof -
  let ?r = "\<lparr>successful =
         [\<lparr>success = True, pointId = ''point-1'',
             res_filename = ''barn.png'', res_description = ''a red barn'',
             res_timestamp = ''2024-01-01T00:00:00.000Z''\<rparr>],
         failed = [\<lparr>fail_filename = ''lake.jpg'', fail_error = Some ''Request timed out.''\<rparr>],
         totalProcessed = 1, totalFailed = 1\<rparr>"
  from batch_counts[OF run_timeout_B]
  have "length (successful ?r) + length (failed ?r) = length [fileA, fileB] \<and>
        totalProcessed ?r + totalFailed ?r = length [fileA, fileB]"
    by blast
  then show ?thesis
    using run_timeout_B by simp
qed

text \<open>
  Claim C2, as amended. \<open>processMultipleImages\<close> does not raise for an item's failure
  that is thrown as an error object, whatever its cause, an unreachable vector store and
  rejected credentials included: when no file's processing rejects with \<open>null\<close> or
  \<open>undefined\<close>, every error that \<open>processUploadedImage\<close> throws for a file is recorded in
  \<open>failed\<close> as that file's name with the error's message, every result it returns is
  recorded in \<open>successful\<close>, and the batch returns normally.
\<close>

theorem batch_records_every_failure:
  assumes "list_all readable (outcomes env imageFiles w)"
  shows "\<exists>w'. processMultipleImages env imageFiles w =
     (w', Inr \<lparr>successful = recorded_successes (outcomes env imageFiles w),
               failed = recorded_failures imageFiles (outcomes env imageFiles w),
               totalProcessed = length (recorded_successes (outcomes env imageFiles w)),
               totalFailed = length (recorded_failures imageFiles (outcomes env imageFiles w))\<rparr>)"
proof -
  obtain w' where "foldl (ingest_step env) (w, [], []) imageFiles =
     (w', [] @ recorded_successes (outcomes env imageFiles w),
          [] @ recorded_failures imageFiles (outcomes env imageFiles w))"
    using ingest_fold_outcomes by blast
  then show ?thesis
    by (simp add: processMultipleImages_fold[OF assms] ingest_fold_def)
qed

theorem batch_records_every_failure_witness:
  "list_all readable (outcomes env_store_down [fileA, fileB] world0) \<and>
   (\<exists>w'. processMultipleImages env_store_down [fileA, fileB] world0 =
     (w', Inr \<lparr>successful = [],
               failed = [\<lparr>fail_filename = ''barn.png'',
                           fail_error = Some ''Qdrant connection refused''\<rparr>,
                         \<lparr>fail_filename = ''lake.jpg'',
                           fail_error = Some ''Qdrant connection refused''\<rparr>],
               totalProcessed = 0, totalFailed = 2\<rparr>))"
proof -
  have ok: "list_all readable (outcomes env_store_down [fileA, fileB] world0)"
    unfolding outcomes_store_down by (simp add: readable_def nullish_def Error_def)
  have rs: "recorded_successes (outcomes env_store_down [fileA, fileB] world0) = []"
    unfolding outcomes_store_down by (simp add: recorded_successes_def)
  have rf: "recorded_failures [fileA, fileB] (outcomes env_store_down [fileA, fileB] world0) =
      [\<lparr>fail_filename = ''barn.png'', fail_error = Some ''Qdrant connection refused''\<rparr>,
       \<lparr>fail_filename = ''lake.jpg'', fail_error = Some ''Qdrant connection refused''\<rparr>]"
    unfolding outcomes_store_down
    by (simp add: recorded_failures_def message_of_def Error_def fileA_def fileB_def)
  from batch_records_every_failure[OF ok] obtain w' where
    "processMultipleImages env_store_down [fileA, fileB] world0 =
     (w', Inr \<lparr>successful = recorded_successes (outcomes env_store_down [fileA, fileB] world0),
               failed = recorded_failures [fileA, fileB]
                          (outcomes env_store_down [fileA, fileB] world0),
               totalProcessed =
                 length (recorded_successes (outcomes env_store_down [fileA, fileB] world0)),
               totalFailed =
                 length (recorded_failures [fileA, fileB]
                           (outcomes env_store_down [fileA, fileB] world0))\<rparr>)"
    by blast
  then have "processMultipleImages env_store_down [fileA, fileB] world0 =
     (w', Inr \<lparr>successful = [],
               failed = [\<lparr>fail_filename = ''barn.png'',
                           fail_error = Some ''Qdrant connection refused''\<rparr>,
                         \<lparr>fail_filename = ''lake.jpg'',
                           fail_error = Some ''Qdrant connection refused''\<rparr>],
               totalProcessed = 0, totalFailed = 2\<rparr>)"
    unfolding rs rf by simp
  then show ?thesis
    using ok by blast
qed

text \<open>
  Claim C2 as stated fails: with the vector store refusing every write, and likewise with
  the provider answering 401, a batch of two files does not raise; it returns with both
  files in its failure list.
\<close>

theorem batch_store_down_counterexample:
  "snd (processMultipleImages env_store_down [fileA, fileB] world0) =
     Inr \<lparr>successful = [],
          failed = [\<lparr>fail_filename = ''barn.png'', fail_error = Some ''Qdrant connection refused''\<rparr>,
                    \<lparr>fail_filename = ''lake.jpg'', fail_error = Some ''Qdrant connection refused''\<rparr>],
          totalProcessed = 0, totalFailed = 2\<rparr> \<and>
   snd (processMultipleImages env_auth_failure [fileA, fileB] world0) =
     Inr \<lparr>successful = [],
          failed = [\<lparr>fail_filename = ''barn.png'', fail_error = Some ''Invalid Azure OpenAI API key or configuration. Please check your credentials in .env file''\<rparr>,
                    \<lparr>fail_filename = ''lake.jpg'', fail_error = Some ''Invalid Azure OpenAI API key or configuration. Please check your credentials in .env file''\<rparr>],
          totalProcessed = 0, totalFailed = 2\<rparr>"
  by (simp add: run_defs env_store_down_def env_auth_failure_def)

text \<open>
  Claim C3. Processing one file enters \<open>cleanupTemporaryFile\<close> exactly once, for that
  file's path, whether description, embedding and storing succeed or one of them fails;
  the cleanup itself never throws; and whether deleting the file fails or not does not
  change what \<open>processUploadedImage\<close> returns or throws.
\<close>

theorem cleanup_exactly_once:
  "cleanup_calls (trace (fst (processUploadedImage env imagePath originalFilename w))) =
     cleanup_calls (trace w) @ [imagePath] \<and>
   snd (cleanupTemporaryFile env imagePath w) = Inr () \<and>
   snd (processUploadedImage (env\<lparr>unlink := u\<rparr>) imagePath originalFilename w) =
     snd (processUploadedImage env imagePath originalFilename w)"
  by (simp add: processUploadedImage_calls cleanupTemporaryFile_returns
        processUploadedImage_outcome_unlink)

theorem cleanup_exactly_once_witness:
  "cleanup_calls (trace (fst (processUploadedImage env_unlink_fails
       ''uploads/images-1.png'' ''barn.png'' world0))) = [''uploads/images-1.png''] \<and>
   snd (processUploadedImage env_unlink_fails ''uploads/images-1.png'' ''barn.png'' world0) =
     Inr \<lparr>success = True, pointId = ''point-1'', res_filename = ''barn.png'',
          res_description = ''a red barn'', res_timestamp = ''2024-01-01T00:00:00.000Z''\<rparr>"
proof -
  let ?u = "\<lambda>t p. Some (Error ''EPERM: operation not permitted'')"
  have calls: "cleanup_calls (trace (fst (processUploadedImage env_unlink_fails
       ''uploads/images-1.png'' ''barn.png'' world0))) = cleanup_calls (trace world0) @ [''uploads/images-1.png'']"
    using cleanup_exactly_once[of env_unlink_fails "''uploads/images-1.png''" "''barn.png''" world0]
    by blast
  have same: "snd (processUploadedImage env_unlink_fails ''uploads/images-1.png'' ''barn.png'' world0) =
      snd (processUploadedImage env_ok ''uploads/images-1.png'' ''barn.png'' world0)"
    using cleanup_exactly_once[of env_ok "''uploads/images-1.png''" "''barn.png''" world0 ?u]
    by (simp add: env_unlink_fails_def)
  have ok: "snd (processUploadedImage env_ok ''uploads/images-1.png'' ''barn.png'' world0) =
     Inr \<lparr>success = True, pointId = ''point-1'', res_filename = ''barn.png'',
          res_description = ''a red barn'', res_timestamp = ''2024-01-01T00:00:00.000Z''\<rparr>"
    using run_single_A by (simp add: fileA_def)
  have "trace world0 = []"
    by (simp add: world0_def)
  then show ?thesis
    using calls same ok by simp
qed



text \<open>
  Claim C5. \<open>validateUploadedFile\<close> is meant to accept every present file within the
  size ceiling whose type is one of JPEG, PNG, GIF, WebP and BMP. At a 1000-byte
  \<open>image/bmp\<close> file, which the middleware's \<open>fileFilter\<close> lets through, it throws
  the invalid-file-type error instead.
\<close>

theorem validate_rejects_bmp:
  "fileFilter bmp_file = Inr True \<and> size_bytes bmp_file \<le> maxSize \<and>
   validateUploadedFile (Some bmp_file) =
     Inl (Error ''Invalid file type. Only JPEG, PNG, GIF, and WebP images are allowed'')"
  by (simp add: fileFilter_def fileFilter_allowedTypes_def bmp_file_def maxSize_def
        validateUploadedFile_def allowedTypes_def)

text \<open>
  Claim C6. Whenever \<open>queryImages\<close> gets as far as calling \<open>searchImages\<close>, the limit it
  passes is a number in [1, 50] and the threshold a number in [0, 1], whatever the body
  supplied for them; an absent \<open>limit\<close> gives 10 and an absent \<open>scoreThreshold\<close> gives
  0.7.
\<close>

theorem query_parameters_clamped:
  assumes "queryImages builtin_parseInt builtin_parseFloat body = Inr (q, sl, th)"
  shows "\<exists>l t. sl = Fin l \<and> 1 \<le> l \<and> l \<le> 50 \<and> th = Fin t \<and> 0 \<le> t \<and> t \<le> 1 \<and>
           (body_limit body = Undefined \<longrightarrow> l = 10) \<and>
           (body_scoreThreshold body = Undefined \<longrightarrow> t = 7 / 10)"
proof -
  let ?limit = "default_param (body_limit body) (Num (Fin 10))"
  let ?st = "default_param (body_scoreThreshold body) (Num (Fin (7 / 10)))"
  from assms have sl: "sl = searchLimit builtin_parseInt ?limit"
    and th: "th = threshold builtin_parseFloat ?st"
    by (auto simp: queryImages_def Let_def split: jsval.splits if_splits)
  obtain l where l: "sl = Fin l" "1 \<le> l" "l \<le> 50"
    using searchLimit_range[of builtin_parseInt ?limit] sl by auto
  obtain t where t: "th = Fin t" "0 \<le> t" "t \<le> 1"
    using threshold_range[of builtin_parseFloat ?st] th by auto
  have "body_limit body = Undefined \<longrightarrow> l = 10"
    using sl l searchLimit_default[of builtin_parseInt] by auto
  moreover have "body_scoreThreshold body = Undefined \<longrightarrow> t = 7 / 10"
    using th t threshold_default[of builtin_parseFloat] by auto
  ultimately show ?thesis using l t by blast
qed

theorem query_parameters_clamped_witness:
  "queryImages (\<lambda>_. NaN) (\<lambda>_. NaN)
     \<lparr>body_query = Str '' cats '', body_limit = Num (Fin (- 3)), body_scoreThreshold = Num (Fin 2)\<rparr> =
     Inr (''cats'', Fin 1, Fin 1) \<and>
   (\<exists>l t. Fin 1 = Fin l \<and> 1 \<le> l \<and> l \<le> 50 \<and> Fin 1 = Fin t \<and> 0 \<le> t \<and> t \<le> (1::real)) \<and>
   queryImages (\<lambda>_. NaN) (\<lambda>_. NaN)
     \<lparr>body_query = Str '' cats '', body_limit = Undefined, body_scoreThreshold = Undefined\<rparr> =
     Inr (''cats'', Fin 10, Fin (7 / 10)) \<and>
   (\<exists>l t. Fin 10 = Fin l \<and> l = 10 \<and> Fin (7 / 10) = Fin t \<and> t = 7 / 10)"
proof -
  from query_parameters_clamped[OF run_query_low]
  have low: "\<exists>l t. Fin 1 = Fin l \<and> 1 \<le> l \<and> l \<le> 50 \<and> Fin 1 = Fin t \<and> 0 \<le> t \<and> t \<le> (1::real)"
    by blast
  from query_parameters_clamped[OF run_query_absent]
  have absent: "\<exists>l t. Fin 10 = Fin l \<and> l = 10 \<and> Fin (7 / 10) = Fin t \<and> t = 7 / 10"
    by auto
  show ?thesis
    using low absent run_query_low run_query_absent by (intro conjI)
qed

text \<open>
  Claim C7. The client attaches suggestions exactly when the search succeeded with
  \<open>totalFound = 0\<close>, which for an answer whose \<open>totalFound\<close> is the length of its
  result list (as the backend builds it) means an empty result list. The attached list is
  what \<open>generateSearchSuggestions\<close> computes, and that is the broad terms followed by
  the words of the lowercased query longer than 3 characters, deduplicated keeping first
  occurrences and cut to 5: it has no duplicates and at most 5 entries. The only request
  made is the one search request; producing the suggestions makes none.
\<close>

theorem suggestions_on_empty_result:
  assumes "searchWithSuggestions post q options w = (w', out)"
  shows "(suggestions out \<noteq> None \<longleftrightarrow>
            qr_success out \<and> (\<exists>d. qr_data out = Some d \<and> totalFound d = 0)) \<and>
         (\<forall>s. suggestions out = Some s \<longrightarrow>
            s = generateSearchSuggestions q \<and> s = suggestions_spec q \<and>
            distinct s \<and> length s \<le> 5) \<and>
         ((\<forall>d. qr_data out = Some d \<longrightarrow> totalFound d = length (sr_results d)) \<longrightarrow>
          suggestions out \<noteq> None \<longrightarrow> (\<exists>d. qr_data out = Some d \<and> sr_results d = [])) \<and>
         trace w' = trace w @ [HttpPostQuery (trim q)]"
proof -
  obtain w1 result where s: "QueryService_searchImages post q options w = (w1, result)"
    by (cases "QueryService_searchImages post q options w")
  have tr: "trace w1 = trace w @ [HttpPostQuery (trim q)]"
    using QueryService_searchImages_trace[of post q options w] s by simp
  let ?attach = "qr_success result \<and>
                  (case qr_data result of None \<Rightarrow> False | Some d \<Rightarrow> totalFound d = 0)"
  show ?thesis
  proof (cases ?attach)
    case True
    with assms s have out: "w' = w1"
      "out = \<lparr>qr_success = qr_success result, qr_message = qr_message result,
              qr_data = qr_data result, suggestions = Some (generateSearchSuggestions q)\<rparr>"
      by (auto simp: searchWithSuggestions_def)
    from True obtain d where d: "qr_data result = Some d" "totalFound d = 0"
      by (auto split: option.splits)
    show ?thesis
      using out True d tr
      by (auto simp: generateSearchSuggestions_spec distinct_suggestions_spec
            length_suggestions_spec)
  next
    case False
    with assms s have out: "w' = w1"
      "out = \<lparr>qr_success = qr_success result, qr_message = qr_message result,
              qr_data = qr_data result, suggestions = None\<rparr>"
      by (auto simp: searchWithSuggestions_def)
    show ?thesis
      using out False tr by (auto split: option.splits)
  qed
qed

theorem suggestions_on_empty_result_witness:
  "suggestions (snd (searchWithSuggestions post_nothing '' zzqqxx ''
       \<lparr>opt_limit = Some 50, opt_scoreThreshold = Some (3 / 5)\<rparr> world0)) =
     Some [''landscape'', ''people'', ''nature'', ''city'', ''sunset''] \<and>
   [''landscape'', ''people'', ''nature'', ''city'', ''sunset''] = suggestions_spec '' zzqqxx '' \<and>
   distinct [''landscape'', ''people'', ''nature'', ''city'', ''sunset''] \<and>
   trace (fst (searchWithSuggestions post_nothing '' zzqqxx ''
       \<lparr>opt_limit = Some 50, opt_scoreThreshold = Some (3 / 5)\<rparr> world0)) =
     [HttpPostQuery ''zzqqxx'']"
proof -
  let ?five = "[''landscape'', ''people'', ''nature'', ''city'', ''sunset'']"
  let ?run = "searchWithSuggestions post_nothing '' zzqqxx ''
       \<lparr>opt_limit = Some 50, opt_scoreThreshold = Some (3 / 5)\<rparr> world0"
  have s1: "suggestions (snd ?run) = Some ?five"
    by (simp add: run_search_nothing)
  have s2: "trace (fst ?run) = [HttpPostQuery ''zzqqxx'']"
    by (simp add: run_search_nothing)
  let ?out = "\<lparr>qr_success = True, qr_message = ''Found 0 matching images'',
     qr_data =
       Some
        \<lparr>sr_query = ''zzqqxx'', sr_results = [], totalFound = 0,
           searchParams = (50, 3 / 5)\<rparr>,
     suggestions = Some ?five\<rparr>"
  from suggestions_on_empty_result[OF run_search_nothing]
  have "suggestions ?out = Some ?five \<longrightarrow> ?five = suggestions_spec '' zzqqxx ''"
    by blast
  moreover have "suggestions ?out = Some ?five"
    by simp
  ultimately have s3: "?five = suggestions_spec '' zzqqxx ''"
    by blast
  have s4: "distinct ?five"
    by simp
  show ?thesis
    using s1 s2 s3 s4 by (intro conjI)
qed

text \<open>
  Claim C8. Whenever \<open>searchImages\<close> returns, its results are ranked by non-increasing
  score, none has a score below the threshold in force, and there are at most \<open>limit\<close> of
  them; \<open>totalFound\<close> is their number, and the parameters in force are the arguments or
  their defaults 10 and 0.7. The coordinator passes the store's list on unchanged; the
  store is the one modelled from the specification.
\<close>

theorem search_results_ranked:
  assumes "searchImages env queryText limit_arg scoreThreshold_arg w = (w', Inr r)"
  shows "ranked (sr_results r) \<and>
         none_below (snd (searchParams r)) (sr_results r) \<and>
         length (sr_results r) \<le> fst (searchParams r) \<and>
         totalFound r = length (sr_results r) \<and>
         searchParams r = (case limit_arg of None \<Rightarrow> 10 | Some l \<Rightarrow> l,
                           case scoreThreshold_arg of None \<Rightarrow> 7 / 10 | Some s \<Rightarrow> s)"
proof -
  let ?limit = "case limit_arg of None \<Rightarrow> 10 | Some l \<Rightarrow> l"
  let ?s = "case scoreThreshold_arg of None \<Rightarrow> 7 / 10 | Some s \<Rightarrow> s"
  from assms obtain w0 qe hits where
    search: "searchSimilarImages env qe ?limit ?s w0 = (w', Inr hits)" and
    r: "r = \<lparr>sr_query = queryText, sr_results = hits, totalFound = length hits,
             searchParams = (?limit, ?s)\<rparr>"
    by (auto simp: searchImages_def Let_def try_catch_def bindE_def ret_def throw_def
          get_isInitialized_def split: prod.splits sum.splits if_splits)
  from searchSimilarImages_contract[OF search] r show ?thesis by simp
qed

theorem search_results_ranked_witness:
  "map hit_id (sr_results (projr (snd
      (searchImages env_ok ''sunset over mountains'' (Some 5) (Some (1 / 10)) world0)))) =
     [''p1'', ''p2''] \<and>
   ranked (sr_results (projr (snd
      (searchImages env_ok ''sunset over mountains'' (Some 5) (Some (1 / 10)) world0)))) \<and>
   map hit_id (sr_results (projr (snd
      (searchImages env_ok ''sunset over mountains'' (Some 5) (Some (7 / 10)) world0)))) =
     [''p1''] \<and>
   none_below (7 / 10) (sr_results (projr (snd
      (searchImages env_ok ''sunset over mountains'' (Some 5) (Some (7 / 10)) world0))))"
proof -
  have a: "ranked (sr_results (projr (snd
      (searchImages env_ok ''sunset over mountains'' (Some 5) (Some (1 / 10)) world0))))"
    using search_results_ranked[OF run_search_both] by (simp add: run_search_both)
  have b: "none_below (7 / 10) (sr_results (projr (snd
      (searchImages env_ok ''sunset over mountains'' (Some 5) (Some (7 / 10)) world0))))"
    using search_results_ranked[OF run_search_threshold] by (simp add: run_search_threshold)
  show ?thesis
    using a b by (simp add: run_search_both run_search_threshold)
qed

text \<open>
  Claim C9. For an upload of exactly one valid file that is processed successfully, the
  controller answers 200 with the result of \<open>processUploadedImage\<close> as its data, and
  the batch path run on that one file from the same state has exactly that result as its
  only success entry (the same description, filename and timestamp); the two bodies
  differ in shape, a single result against a batch envelope.
\<close>

theorem single_upload_matches_batch_entry:
  assumes valid: "validateUploadedFile (Some file) = Inr True"
    and one: "req_files req = Some [file] \<or> (req_files req = None \<and> req_file req = Some file)"
    and run: "processUploadedImage env (path file) (originalname file) w = (w1, Inr r)"
  shows "uploadImages env req w = (w1, Respond 200 (Single_upload r)) \<and>
         processMultipleImages env [file] w =
           (w1, Inr \<lparr>successful = [r], failed = [], totalProcessed = 1, totalFailed = 0\<rparr>) \<and>
         res_filename r = originalname file \<and>
         Single_upload r \<noteq>
           Batch_upload \<lparr>successful = [r], failed = [], totalProcessed = 1, totalFailed = 0\<rparr>"
proof -
  have files: "(case req_files req of
                  Some fs \<Rightarrow> fs
                | None \<Rightarrow> (case req_file req of Some f \<Rightarrow> [f] | None \<Rightarrow> [])) = [file]"
    using one by auto
  have single: "uploadImages env req w = (w1, Respond 200 (Single_upload r))"
    using valid run
    by (simp add: uploadImages_def files handler_def bindE_def ret_def)
  have batch: "processMultipleImages env [file] w =
           (w1, Inr \<lparr>successful = [r], failed = [], totalProcessed = 1, totalFailed = 0\<rparr>)"
  proof -
    have ok: "list_all readable (outcomes env [file] w)"
      using run by (simp add: readable_def)
    show ?thesis
      using run by (simp add: processMultipleImages_fold[OF ok] ingest_fold_def ingest_step_cases)
  qed
  show ?thesis
    using single batch processUploadedImage_filename[OF run] by simp
qed

theorem single_upload_matches_batch_entry_witness:
  "uploadImages env_ok \<lparr>req_files = Some [fileA], req_file = None\<rparr> world0 =
     (\<lparr>isInitialized = True, files = {''uploads/images-2.jpg''}, clock = 6,
       trace =
         [Call_processUploadedImage ''uploads/images-1.png'' ''barn.png'',
          InitializeCollection, ReadFile ''uploads/images-1.png'',
          VisionRequest ''uploads/images-1.png'',
          EmbeddingRequest ''a red barn'', StoreRequest ''barn.png'',
          Call_cleanupTemporaryFile ''uploads/images-1.png'',
          PathExists ''uploads/images-1.png'',
          Unlink ''uploads/images-1.png'']\<rparr>,
      Respond 200 (Single_upload
        \<lparr>success = True, pointId = ''point-1'', res_filename = ''barn.png'',
         res_description = ''a red barn'', res_timestamp = ''2024-01-01T00:00:00.000Z''\<rparr>)) \<and>
   snd (processMultipleImages env_ok [fileA] world0) =
     Inr \<lparr>successful =
            [\<lparr>success = True, pointId = ''point-1'', res_filename = ''barn.png'',
              res_description = ''a red barn'', res_timestamp = ''2024-01-01T00:00:00.000Z''\<rparr>],
          failed = [], totalProcessed = 1, totalFailed = 0\<rparr>"
proof -
  have valid: "validateUploadedFile (Some fileA) = Inr True"
    by (simp add: validateUploadedFile_def fileA_def maxSize_def allowedTypes_def)
  have one: "req_files \<lparr>req_files = Some [fileA], req_file = None\<rparr> = Some [fileA] \<or>
      (req_files \<lparr>req_files = Some [fileA], req_file = None\<rparr> = None \<and>
       req_file \<lparr>req_files = Some [fileA], req_file = None\<rparr> = Some fileA)"
    by simp
  from single_upload_matches_batch_entry[OF valid one run_single_A]
  show ?thesis by simp
qed

text \<open>
  Claim C10, as amended. For every query string, \<open>generateSearchSuggestions\<close> returns the
  same list of five terms, landscape, people, nature, city, sunset: six distinct fixed
  terms are pushed before any word of the query and the deduplicated list is cut to five,
  so any two queries get equal suggestions, and a word appears in the suggestions exactly
  when it is one of those five terms, whether or not it is a word of the query.
\<close>

theorem suggestions_constant:
  "generateSearchSuggestions q = [''landscape'', ''people'', ''nature'', ''city'', ''sunset''] \<and>
   generateSearchSuggestions q = generateSearchSuggestions q' \<and>
   (word \<in> set (generateSearchSuggestions q)) =
     (word \<in> {''landscape'', ''people'', ''nature'', ''city'', ''sunset''})"
proof -
  have const: "generateSearchSuggestions q0 =
      [''landscape'', ''people'', ''nature'', ''city'', ''sunset'']" for q0
  proof -
    let ?ws = "filter (\<lambda>w. length w > 3) (split_on CHR '' '' (toLowerCase q0))"
    have "new_Set (broad_terms @ ?ws) = foldl Set_add (new_Set broad_terms) ?ws"
      by (simp add: new_Set_def)
    then obtain ys where "new_Set (broad_terms @ ?ws) = broad_terms @ ys"
      using Set_add_prefix[of broad_terms ?ws] by (auto simp: new_Set_broad_terms)
    then have "take 5 (new_Set (broad_terms @ ?ws)) = take 5 broad_terms"
      by (simp add: broad_terms_def)
    moreover have "generateSearchSuggestions q0 = take 5 (new_Set (broad_terms @ ?ws))"
      by (simp add: generateSearchSuggestions_def Let_def push_def foldl_push_filter
            broad_terms_def)
    ultimately show ?thesis by (simp add: broad_terms_def)
  qed
  have "(word \<in> set [''landscape'', ''people'', ''nature'', ''city'', ''sunset'']) =
        (word \<in> {''landscape'', ''people'', ''nature'', ''city'', ''sunset''})"
    by simp
  then show ?thesis
    using const[of q] const[of q'] by simp
qed

text \<open>
  Claim C10 as stated fails in the part that no word of the query can appear in the
  suggestions: the query sunset has the one word sunset, longer than 3 characters, and
  sunset is among its suggestions.
\<close>

theorem suggestions_query_word_counterexample:
  "split_on CHR '' '' (toLowerCase ''sunset'') = [''sunset''] \<and>
   length ''sunset'' > 3 \<and>
   ''sunset'' \<in> set (generateSearchSuggestions ''sunset'')"
  by (simp add: generateSearchSuggestions_def toLowerCase_def push_def new_Set_def
        Set_add_def Let_def)

end
